theory Spec2Isabelle
  imports Complex_Main
begin

section \<open>Vectors\<close>

text \<open>
  The program computes with \<^verbatim>\<open>THREE.Vector3\<close> values whose components are
  JavaScript numbers. The components are modelled as real numbers: rounding is
  left out, and the one place where the program divides zero by zero (the closest
  point on an edge of length zero, which JavaScript evaluates to NaN) is an
  explicit \<open>None\<close>. The operations below are the methods of the three.js library
  that the repository calls, with the library's own guards
  (\<^verbatim>\<open>normalize\<close> divides by \<^verbatim>\<open>length() || 1\<close>, \<^verbatim>\<open>angleTo\<close> returns
  \<^verbatim>\<open>PI / 2\<close> on a zero denominator and clamps the cosine).
\<close>

datatype vec3 = Vec3 (vx: real) (vy: real) (vz: real)

definition addV :: "vec3 \<Rightarrow> vec3 \<Rightarrow> vec3" where
  "addV a b = Vec3 (vx a + vx b) (vy a + vy b) (vz a + vz b)"

definition subV :: "vec3 \<Rightarrow> vec3 \<Rightarrow> vec3" where
  "subV a b = Vec3 (vx a - vx b) (vy a - vy b) (vz a - vz b)"

definition multiplyScalar :: "vec3 \<Rightarrow> real \<Rightarrow> vec3" where
  "multiplyScalar a s = Vec3 (vx a * s) (vy a * s) (vz a * s)"

definition divideScalar :: "vec3 \<Rightarrow> real \<Rightarrow> vec3" where
  "divideScalar a s = multiplyScalar a (1 / s)"

definition dot :: "vec3 \<Rightarrow> vec3 \<Rightarrow> real" where
  "dot a b = vx a * vx b + vy a * vy b + vz a * vz b"

definition crossVectors :: "vec3 \<Rightarrow> vec3 \<Rightarrow> vec3" where
  "crossVectors a b =
     Vec3 (vy a * vz b - vz a * vy b) (vz a * vx b - vx a * vz b) (vx a * vy b - vy a * vx b)"

definition lengthSq :: "vec3 \<Rightarrow> real" where
  "lengthSq a = vx a * vx a + vy a * vy a + vz a * vz a"

definition lengthV :: "vec3 \<Rightarrow> real" where
  "lengthV a = sqrt (lengthSq a)"

text \<open>\<^verbatim>\<open>normalize() { return this.divideScalar( this.length() || 1 ); }\<close>\<close>

definition normalizeV :: "vec3 \<Rightarrow> vec3" where
  "normalizeV a = divideScalar a (if lengthV a = 0 then 1 else lengthV a)"

definition distanceTo :: "vec3 \<Rightarrow> vec3 \<Rightarrow> real" where
  "distanceTo a b = sqrt (lengthSq (subV a b))"

definition clamp :: "real \<Rightarrow> real \<Rightarrow> real \<Rightarrow> real" where
  "clamp x lo hi = max lo (min hi x)"

text \<open>
  \<^verbatim>\<open>angleTo(v)\<close>: the denominator is \<^verbatim>\<open>sqrt(lengthSq() * v.lengthSq())\<close>; on a
  zero denominator the result is \<^verbatim>\<open>PI / 2\<close>, otherwise the arc cosine of the
  clamped quotient.
\<close>

definition angleTo :: "vec3 \<Rightarrow> vec3 \<Rightarrow> real" where
  "angleTo a b =
     (let denominator = sqrt (lengthSq a * lengthSq b) in
      if denominator = 0 then pi / 2
      else arccos (clamp (dot a b / denominator) (- 1) 1))"

definition radToDeg :: "real \<Rightarrow> real" where
  "radToDeg r = r * (180 / pi)"

text \<open>
  \<^verbatim>\<open>applyAxisAngle(axis, angle)\<close> rotates by the quaternion
  \<open>(axis * sin (angle / 2), cos (angle / 2))\<close>:
  \<open>v + w * t + cross q t\<close> with \<open>t = 2 * cross q v\<close>.
\<close>

definition applyAxisAngle :: "vec3 \<Rightarrow> vec3 \<Rightarrow> real \<Rightarrow> vec3" where
  "applyAxisAngle v axis angle =
     (let q = multiplyScalar axis (sin (angle / 2));
          w = cos (angle / 2);
          t = multiplyScalar (crossVectors q v) 2
      in addV (addV v (multiplyScalar t w)) (crossVectors q t))"

section \<open>Closest point on an edge\<close>

text \<open>
  \<^verbatim>\<open>getClosestPointOnLineSegment\<close> calls \<^verbatim>\<open>Line3.closestPointToPoint\<close>
  with clamping: the parameter is \<open>dot (end - start) (point - start)\<close> divided by
  \<open>dot (end - start) (end - start)\<close>, clamped to \<open>[0, 1]\<close>. For an edge of length
  zero the quotient is \<open>0 / 0\<close>, NaN in JavaScript, and so is every coordinate of
  the returned point: the model returns \<open>None\<close> there.
\<close>

definition getClosestPointOnLineSegment :: "vec3 \<Rightarrow> vec3 \<Rightarrow> vec3 \<Rightarrow> vec3 option" where
  "getClosestPointOnLineSegment point start end0 =
     (let startP = subV point start;
          startEnd = subV end0 start;
          startEnd2 = dot startEnd startEnd;
          startEnd_startP = dot startEnd startP
      in if startEnd2 = 0 then None
         else Some (addV (multiplyScalar startEnd (clamp (startEnd_startP / startEnd2) 0 1)) start))"

section \<open>Snapping\<close>

datatype SnapType = Vertex | Edge | Midpoint | Centroid | Face | NoSnap

record SnapResult =
  s_point :: vec3
  s_type :: SnapType
  s_distance :: real
  s_object :: nat
  s_edgeVertices :: "(vec3 \<times> vec3) option"

text \<open>
  One entry of the list \<^verbatim>\<open>raycaster.intersectObjects\<close> returns, nearest first. The
  ray cast itself belongs to three.js; the model takes its result as an input. The
  vertices of the hit face are given in world space (the program reads them from
  the position attribute at \<^verbatim>\<open>face.a, face.b, face.c\<close> and applies
  \<^verbatim>\<open>matrixWorld\<close>); \<open>f_normal\<close> is the face normal after the normal matrix of
  the object has been applied.
\<close>

record face =
  f_a :: vec3
  f_b :: vec3
  f_c :: vec3
  f_normal :: vec3

record hit =
  h_point :: vec3
  h_object :: nat
  h_isMesh :: bool
  h_isBufferGeometry :: bool
  h_face :: "face option"

record SnappingManager =
  enabled :: bool
  snapVertices :: bool
  snapEdges :: bool
  snapMidpoints :: bool
  snapCentroids :: bool
  markerVisible :: bool
  markerPosition :: vec3
  edgeHighlighterVisible :: bool
  edgeHighlighterPositions :: "vec3 \<times> vec3"

definition snapThreshold :: real where
  "snapThreshold = 0.2"

definition newSnappingManager :: SnappingManager where
  "newSnappingManager =
     \<lparr> enabled = True, snapVertices = True, snapEdges = True, snapMidpoints = True,
       snapCentroids = True, markerVisible = False, markerPosition = Vec3 0 0 0,
       edgeHighlighterVisible = False, edgeHighlighterPositions = (Vec3 0 0 0, Vec3 0 0 0) \<rparr>"

definition enable :: "SnappingManager \<Rightarrow> SnappingManager" where
  "enable sm = sm\<lparr>enabled := True, markerVisible := False, edgeHighlighterVisible := False\<rparr>"

definition disable :: "SnappingManager \<Rightarrow> SnappingManager" where
  "disable sm = sm\<lparr>enabled := False, markerVisible := False, edgeHighlighterVisible := False\<rparr>"

text \<open>
  The running best of \<^verbatim>\<open>getSnapPoint\<close>: the pair of \<^verbatim>\<open>minSnapDist\<close> and
  \<^verbatim>\<open>bestSnap\<close>. Every loop body of the source is the same test
  \<^verbatim>\<open>if (dist < minSnapDist) { minSnapDist = dist; bestSnap = {...} }\<close>.
\<close>

type_synonym best = "real \<times> SnapResult option"

definition tryCandidate :: "best \<Rightarrow> SnapResult \<Rightarrow> best" where
  "tryCandidate b cand =
     (if s_distance cand < fst b then (s_distance cand, Some cand) else b)"

definition edgesOf :: "vec3 list \<Rightarrow> (vec3 \<times> vec3) list" where
  "edgesOf vertices =
     [(vertices ! 0, vertices ! 1), (vertices ! 1, vertices ! 2), (vertices ! 2, vertices ! 0)]"

definition vertexCandidate :: "vec3 \<Rightarrow> nat \<Rightarrow> vec3 \<Rightarrow> SnapResult" where
  "vertexCandidate point mesh v =
     \<lparr> s_point = v, s_type = Vertex, s_distance = distanceTo v point, s_object = mesh,
       s_edgeVertices = None \<rparr>"

definition midpointCandidate :: "vec3 \<Rightarrow> nat \<Rightarrow> vec3 \<times> vec3 \<Rightarrow> SnapResult" where
  "midpointCandidate point mesh edge =
     (let mid = multiplyScalar (addV (fst edge) (snd edge)) 0.5 in
      \<lparr> s_point = mid, s_type = Midpoint, s_distance = distanceTo mid point, s_object = mesh,
        s_edgeVertices = Some (fst edge, snd edge) \<rparr>)"

definition centroidCandidate :: "vec3 \<Rightarrow> nat \<Rightarrow> vec3 list \<Rightarrow> SnapResult" where
  "centroidCandidate point mesh vertices =
     (let centroid = divideScalar (addV (addV (vertices ! 0) (vertices ! 1)) (vertices ! 2)) 3 in
      \<lparr> s_point = centroid, s_type = Centroid, s_distance = distanceTo centroid point,
        s_object = mesh, s_edgeVertices = None \<rparr>)"

text \<open>
  An edge of length zero gives a NaN point and a NaN distance; the comparison
  \<^verbatim>\<open>dist < minSnapDist\<close> is then false and the candidate is passed over.
\<close>

definition edgeCandidate :: "vec3 \<Rightarrow> nat \<Rightarrow> vec3 \<times> vec3 \<Rightarrow> SnapResult option" where
  "edgeCandidate point mesh edge =
     (case getClosestPointOnLineSegment point (fst edge) (snd edge) of
        None \<Rightarrow> None
      | Some closest \<Rightarrow>
          Some \<lparr> s_point = closest, s_type = Edge, s_distance = distanceTo closest point,
                 s_object = mesh, s_edgeVertices = Some (fst edge, snd edge) \<rparr>)"

definition tryEdge :: "vec3 \<Rightarrow> nat \<Rightarrow> best \<Rightarrow> vec3 \<times> vec3 \<Rightarrow> best" where
  "tryEdge point mesh b edge =
     (case edgeCandidate point mesh edge of None \<Rightarrow> b | Some cand \<Rightarrow> tryCandidate b cand)"

definition snapFeatures :: "SnappingManager \<Rightarrow> vec3 \<Rightarrow> nat \<Rightarrow> vec3 list \<Rightarrow> best" where
  "snapFeatures sm point mesh vertices =
     (let b0 = (snapThreshold, None);
          b1 = (if snapVertices sm
                then foldl tryCandidate b0 (map (vertexCandidate point mesh) vertices)
                else b0);
          b2 = (if snapMidpoints sm
                then foldl tryCandidate b1 (map (midpointCandidate point mesh) (edgesOf vertices))
                else b1);
          b3 = (if snapCentroids sm
                then tryCandidate b2 (centroidCandidate point mesh vertices)
                else b2);
          b4 = (if snapEdges sm
                then foldl (tryEdge point mesh) b3 (edgesOf vertices)
                else b3)
      in b4)"

definition hideVisuals :: "SnappingManager \<Rightarrow> SnappingManager" where
  "hideVisuals sm = sm\<lparr>markerVisible := False, edgeHighlighterVisible := False\<rparr>"

definition showVisuals :: "SnappingManager \<Rightarrow> SnapResult \<Rightarrow> SnappingManager" where
  "showVisuals sm bestSnap =
     (let sm1 = sm\<lparr>markerPosition := s_point bestSnap, markerVisible := True\<rparr> in
      case s_edgeVertices bestSnap of
        Some ev \<Rightarrow>
          if s_type bestSnap = Edge \<or> s_type bestSnap = Midpoint
          then sm1\<lparr>edgeHighlighterPositions := ev, edgeHighlighterVisible := True\<rparr>
          else sm1\<lparr>edgeHighlighterVisible := False\<rparr>
      | None \<Rightarrow> sm1\<lparr>edgeHighlighterVisible := False\<rparr>)"

text \<open>
  \<^verbatim>\<open>getSnapPoint\<close> returns the snap result and the manager with its marker and
  edge highlighter updated.
\<close>

definition getSnapPoint :: "hit list \<Rightarrow> SnappingManager \<Rightarrow> SnapResult option \<times> SnappingManager" where
  "getSnapPoint intersects sm =
     (if \<not> enabled sm then (None, hideVisuals sm)
      else case intersects of
        [] \<Rightarrow> (None, hideVisuals sm)
      | h # _ \<Rightarrow>
          (let bestSnap =
                 (case h_face h of
                    None \<Rightarrow> None
                  | Some f \<Rightarrow>
                      if h_isMesh h \<and> h_isBufferGeometry h
                      then snd (snapFeatures sm (h_point h) (h_object h) [f_a f, f_b f, f_c f])
                      else None)
           in case bestSnap of
                None \<Rightarrow> (None, hideVisuals sm)
              | Some r \<Rightarrow> (Some r, showVisuals sm r)))"

section \<open>Dimension records, style and drawable primitives\<close>

datatype DimensionType = Linear | AlignedDim | Angle | Leader

datatype units = M | MM | FT

datatype textMode = Horizontal | AlignedText

record DimensionStyle =
  st_color :: string
  st_fontSize :: real
  st_scale :: real
  st_depthTest :: bool
  st_offset :: real
  st_units :: units
  st_textBgColor :: "string option"
  st_textMode :: textMode

text \<open>
  \<^verbatim>\<open>Partial<DimensionStyle>\<close>: a field that is \<open>None\<close> is a key the caller left
  out. \<^verbatim>\<open>{ ...this.style, ...style }\<close> keeps the old value of such a key.
\<close>

record PartialStyle =
  p_color :: "string option"
  p_fontSize :: "real option"
  p_scale :: "real option"
  p_depthTest :: "bool option"
  p_offset :: "real option"
  p_units :: "units option"
  p_textBgColor :: "string option option"
  p_textMode :: "textMode option"

definition spread :: "'a \<Rightarrow> 'a option \<Rightarrow> 'a" where
  "spread old new = (case new of None \<Rightarrow> old | Some v \<Rightarrow> v)"

definition mergeStyle :: "DimensionStyle \<Rightarrow> PartialStyle \<Rightarrow> DimensionStyle" where
  "mergeStyle st p =
     \<lparr> st_color = spread (st_color st) (p_color p),
       st_fontSize = spread (st_fontSize st) (p_fontSize p),
       st_scale = spread (st_scale st) (p_scale p),
       st_depthTest = spread (st_depthTest st) (p_depthTest p),
       st_offset = spread (st_offset st) (p_offset p),
       st_units = spread (st_units st) (p_units p),
       st_textBgColor = spread (st_textBgColor st) (p_textBgColor p),
       st_textMode = spread (st_textMode st) (p_textMode p) \<rparr>"

record DimensionData =
  d_id :: int
  d_type :: DimensionType
  d_start :: vec3
  d_end :: vec3
  d_offsetPoint :: vec3
  d_angleP2 :: "vec3 option"
  d_text :: "string option"

text \<open>
  What the builders hand to the renderer. A \<^verbatim>\<open>THREE.Group\<close> is the list of its
  children in the order they are added. A colour is the style's colour string and
  whether it was blended half way to the grey \<^verbatim>\<open>0x888888\<close> (previews). A label
  is the number that is formatted and the unit it is formatted for
  (\<^verbatim>\<open>toFixed\<close> and the suffix are the renderer's business), or a literal text.
\<close>

record colour =
  c_base :: string
  c_blended :: bool

record lineMaterial =
  lm_color :: colour
  lm_depthTest :: bool
  lm_opacity :: real

datatype label = Metres real | Millimetres real | Feet real | Degrees real | Note string

datatype primitive =
    Line "vec3 list" lineMaterial
  | LineSegments "vec3 list" lineMaterial
  | Cone (cone_position: vec3) (cone_direction: vec3) (cone_radius: real) (cone_height: real)
         colour bool
  | Sprite label string real "string option" (sprite_position: vec3) (sprite_renderOrder: nat)

type_synonym group = "primitive list"

definition previewColor :: "DimensionStyle \<Rightarrow> bool \<Rightarrow> colour" where
  "previewColor st isPreview = \<lparr> c_base = st_color st, c_blended = isPreview \<rparr>"

definition mkLineMat :: "DimensionStyle \<Rightarrow> bool \<Rightarrow> lineMaterial" where
  "mkLineMat st isPreview =
     \<lparr> lm_color = previewColor st isPreview, lm_depthTest = st_depthTest st,
       lm_opacity = (if isPreview then 0.6 else 1.0) \<rparr>"

definition createTextSprite :: "DimensionStyle \<Rightarrow> label \<Rightarrow> vec3 \<Rightarrow> primitive" where
  "createTextSprite st l position =
     Sprite l (st_color st) (st_scale st) (st_textBgColor st) position
       (if \<not> st_depthTest st then 999 else 0)"

section \<open>The geometry builders\<close>

definition buildLeaderGeometry :: "DimensionStyle \<Rightarrow> DimensionData \<Rightarrow> bool \<Rightarrow> group option" where
  "buildLeaderGeometry st data isPreview =
     (let start = d_start data; end0 = d_end data; offsetPoint = d_offsetPoint data;
          color = previewColor st isPreview;
          lineMat = mkLineMat st isPreview;
          arrowDir0 = normalizeV (subV start end0);
          arrowDir = (if lengthSq arrowDir0 < 0.0001 then Vec3 0 1 0 else arrowDir0);
          arrowLen = 0.2 * st_scale st;
          arrowWidth = 0.05 * st_scale st;
          conePos = subV start (multiplyScalar arrowDir (arrowLen / 2));
          lbl = (case d_text data of None \<Rightarrow> ''Note''
                 | Some t \<Rightarrow> if t = [] then ''Note'' else t);
          extDir0 = normalizeV (subV offsetPoint end0);
          extDir = (if lengthSq extDir0 < 0.0001 then Vec3 1 0 0 else extDir0);
          textPos = addV offsetPoint (multiplyScalar extDir (0.2 * st_scale st))
      in Some [Line [start, end0] lineMat,
               Line [end0, offsetPoint] lineMat,
               Cone conePos arrowDir arrowWidth arrowLen color (st_depthTest st),
               createTextSprite st (Note lbl) textPos])"

definition linearLabel :: "DimensionStyle \<Rightarrow> real \<Rightarrow> label" where
  "linearLabel st distance =
     (if st_units st = MM then Millimetres (distance * 1000)
      else if st_units st = FT then Feet (distance * 3.28084)
      else Metres distance)"

definition buildLinearGeometry :: "DimensionStyle \<Rightarrow> DimensionData \<Rightarrow> bool \<Rightarrow> group option" where
  "buildLinearGeometry st data isPreview =
     (let start = d_start data; end0 = d_end data; offsetPoint = d_offsetPoint data;
          distance = distanceTo start end0
      in if distance < 0.001 then None
         else
          (let color = previewColor st isPreview;
               ab = subV end0 start;
               dir = normalizeV ab;
               vStartOffset = subV offsetPoint start;
               projectionLength = dot vStartOffset dir;
               projectionVec = multiplyScalar dir projectionLength;
               perpVec = subV vStartOffset projectionVec;
               p1 = addV start perpVec;
               p2 = addV end0 perpVec;
               lineMat = mkLineMat st isPreview;
               gap = 0.0;
               extension = 0.1 * st_scale st;
               leaderDir = (if lengthSq perpVec < 0.0001 then Vec3 0 1 0 else normalizeV perpVec);
               l1Start = addV start (multiplyScalar leaderDir gap);
               l1End = addV p1 (multiplyScalar leaderDir extension);
               l2Start = addV end0 (multiplyScalar leaderDir gap);
               l2End = addV p2 (multiplyScalar leaderDir extension);
               leaderMat = \<lparr> lm_color = color, lm_depthTest = st_depthTest st, lm_opacity = 0.5 \<rparr>;
               tickSize = 0.1 * st_scale st;
               tickVec = multiplyScalar (normalizeV (addV dir leaderDir)) tickSize;
               t1a = subV p1 tickVec; t1b = addV p1 tickVec;
               t2a = subV p2 tickVec; t2b = addV p2 tickVec;
               midPoint = multiplyScalar (addV p1 p2) 0.5;
               textPos = addV midPoint (multiplyScalar leaderDir (0.2 * st_scale st))
           in Some [Line [p1, p2] lineMat,
                    Line [l1Start, l1End] leaderMat,
                    Line [l2Start, l2End] leaderMat,
                    LineSegments [t1a, t1b, t2a, t2b] lineMat,
                    createTextSprite st (linearLabel st distance) textPos]))"

text \<open>
  The arc is a \<^verbatim>\<open>THREE.EllipseCurve(0, 0, radius, radius, 0, angle, false, 0)\<close>
  sampled by \<^verbatim>\<open>getPoints(24)\<close>: the 25 points at \<open>t = d / 24\<close>. Its
  \<^verbatim>\<open>getPoint\<close> takes the sweep \<open>angle - 0\<close>, replaces a sweep below
  \<^verbatim>\<open>Number.EPSILON\<close> by zero, and returns
  \<open>(radius * cos (t * sweep), radius * sin (t * sweep))\<close>. Its loops that wrap the
  sweep into \<open>0 .. 2 * pi\<close> never run here: an angle of \<open>angleTo\<close> is in
  \<open>0 .. pi\<close> (lemma \<open>angleTo_range\<close> below).
\<close>

definition numberEpsilon :: real where
  "numberEpsilon = 1 / 2 ^ 52"

definition ellipsePoint :: "real \<Rightarrow> real \<Rightarrow> real \<Rightarrow> real \<times> real" where
  "ellipsePoint radius aEndAngle t =
     (let deltaAngle = (if aEndAngle < numberEpsilon then 0 else aEndAngle);
          a = t * deltaAngle
      in (radius * cos a, radius * sin a))"

definition ellipseGetPoints :: "real \<Rightarrow> real \<Rightarrow> nat \<Rightarrow> (real \<times> real) list" where
  "ellipseGetPoints radius aEndAngle divisions =
     map (\<lambda>d. ellipsePoint radius aEndAngle (real d / real divisions)) [0 ..< Suc divisions]"

definition buildAngleGeometry :: "DimensionStyle \<Rightarrow> DimensionData \<Rightarrow> bool \<Rightarrow> group option" where
  "buildAngleGeometry st data isPreview =
     (case d_angleP2 data of
        None \<Rightarrow> None
      | Some p2 \<Rightarrow>
         (let center = d_start data; p1 = d_end data; radiusPoint = d_offsetPoint data;
              lineMat = mkLineMat st isPreview;
              v1 = subV p1 center;
              v2 = subV p2 center;
              radius = distanceTo center radiusPoint
          in if radius < 0.001 then None
             else
              (let dir1 = normalizeV v1;
                   dir2 = normalizeV v2;
                   arcStart1 = addV center (multiplyScalar dir1 radius);
                   arcStart2 = addV center (multiplyScalar dir2 radius);
                   angle = angleTo v1 v2;
                   degrees = radToDeg angle;
                   normal0 = normalizeV (crossVectors v1 v2);
                   normal = (if lengthSq normal0 < 0.0001 then Vec3 0 1 0 else normal0);
                   points2D = ellipseGetPoints radius angle 24;
                   xAxis = dir1;
                   zAxis = normal;
                   yAxis = normalizeV (crossVectors zAxis xAxis);
                   points3D = map (\<lambda>p. addV (addV center (multiplyScalar xAxis (fst p)))
                                              (multiplyScalar yAxis (snd p))) points2D;
                   midAngle = angle / 2;
                   midDir = applyAxisAngle dir1 normal midAngle;
                   textPos = addV center (multiplyScalar midDir (radius + 0.2 * st_scale st))
               in Some [Line [center, arcStart1] lineMat,
                        Line [center, arcStart2] lineMat,
                        Line points3D lineMat,
                        createTextSprite st (Degrees degrees) textPos])))"

definition buildGeometry :: "DimensionStyle \<Rightarrow> DimensionData \<Rightarrow> bool \<Rightarrow> group option" where
  "buildGeometry st data isPreview =
     (if d_type data = Angle then buildAngleGeometry st data isPreview
      else if d_type data = Leader then buildLeaderGeometry st data isPreview
      else buildLinearGeometry st data isPreview)"

section \<open>The renderer\<close>

record DimensionRenderer =
  dimensionData :: "DimensionData list"
  nextId :: int
  style :: DimensionStyle
  dimensionsGroup :: "group list"
  previewGroup :: "group list"

definition defaultStyle :: DimensionStyle where
  "defaultStyle =
     \<lparr> st_color = ''#000000'', st_fontSize = 1, st_scale = 1, st_depthTest = False,
       st_offset = 0.5, st_units = M, st_textBgColor = Some ''#ffffff'',
       st_textMode = Horizontal \<rparr>"

definition newDimensionRenderer :: DimensionRenderer where
  "newDimensionRenderer =
     \<lparr> dimensionData = [], nextId = 0, style = defaultStyle, dimensionsGroup = [],
       previewGroup = [] \<rparr>"

definition rebuildAll :: "DimensionRenderer \<Rightarrow> DimensionRenderer" where
  "rebuildAll r =
     r\<lparr>dimensionsGroup := List.map_filter (\<lambda>data. buildGeometry (style r) data False)
                              (dimensionData r)\<rparr>"

definition setStyle :: "PartialStyle \<Rightarrow> DimensionRenderer \<Rightarrow> DimensionRenderer" where
  "setStyle p r = rebuildAll (r\<lparr>style := mergeStyle (style r) p\<rparr>)"

definition createDimension ::
    "DimensionType \<Rightarrow> vec3 \<Rightarrow> vec3 \<Rightarrow> vec3 \<Rightarrow> vec3 option \<Rightarrow> string option \<Rightarrow>
     DimensionRenderer \<Rightarrow> DimensionRenderer" where
  "createDimension ty start end0 offsetPoint angleP2' text0 r =
     (let data = \<lparr> d_id = nextId r, d_type = ty, d_start = start, d_end = end0,
                    d_offsetPoint = offsetPoint, d_angleP2 = angleP2', d_text = text0 \<rparr>
      in rebuildAll (r\<lparr>nextId := nextId r + 1, dimensionData := dimensionData r @ [data]\<rparr>))"

definition updatePreview ::
    "DimensionType \<Rightarrow> vec3 \<Rightarrow> vec3 \<Rightarrow> vec3 \<Rightarrow> vec3 option \<Rightarrow> string option \<Rightarrow>
     DimensionRenderer \<Rightarrow> DimensionRenderer" where
  "updatePreview ty start end0 offsetPoint angleP2' text0 r =
     (let data = \<lparr> d_id = - 1, d_type = ty, d_start = start, d_end = end0,
                    d_offsetPoint = offsetPoint, d_angleP2 = angleP2', d_text = text0 \<rparr>
      in r\<lparr>previewGroup := (case buildGeometry (style r) data True of
                                None \<Rightarrow> [] | Some g \<Rightarrow> [g])\<rparr>)"

definition clearPreview :: "DimensionRenderer \<Rightarrow> DimensionRenderer" where
  "clearPreview r = r\<lparr>previewGroup := []\<rparr>"

definition clear :: "DimensionRenderer \<Rightarrow> DimensionRenderer" where
  "clear r = r\<lparr>dimensionData := [], dimensionsGroup := [], previewGroup := []\<rparr>"

section \<open>The construction plane and the free-point resolver\<close>

record CPlane =
  cp_origin :: vec3
  cp_normal :: vec3

text \<open>
  A pointer ray, as \<^verbatim>\<open>raycaster.setFromCamera(mouse, camera)\<close> sets it. The
  three.js routines used on it:
  \<^item> \<^verbatim>\<open>Plane.setFromNormalAndCoplanarPoint(normal, point)\<close> stores the normal and
    the constant \<open>- dot point normal\<close>;
  \<^item> \<^verbatim>\<open>Ray.distanceToPlane(plane)\<close>: with \<open>denominator = dot normal direction\<close>,
    a zero denominator gives \<open>0\<close> when the ray origin is on the plane
    (\<^verbatim>\<open>plane.distanceToPoint(origin) === 0\<close>) and null otherwise; a nonzero one
    gives \<open>t = - (dot origin normal + constant) / denominator\<close> when \<open>t \<ge> 0\<close>
    and null otherwise;
  \<^item> \<^verbatim>\<open>Ray.intersectPlane(plane, target)\<close> is null when the distance is null and
    \<^verbatim>\<open>at(t)\<close> otherwise.
\<close>

record ray =
  r_origin :: vec3
  r_direction :: vec3

record plane =
  pl_normal :: vec3
  pl_constant :: real

definition rayAt :: "ray \<Rightarrow> real \<Rightarrow> vec3" where
  "rayAt r t = addV (r_origin r) (multiplyScalar (r_direction r) t)"

definition setFromNormalAndCoplanarPoint :: "vec3 \<Rightarrow> vec3 \<Rightarrow> plane" where
  "setFromNormalAndCoplanarPoint n point = \<lparr> pl_normal = n, pl_constant = - dot point n \<rparr>"

definition distanceToPoint :: "plane \<Rightarrow> vec3 \<Rightarrow> real" where
  "distanceToPoint pl point = dot (pl_normal pl) point + pl_constant pl"

definition distanceToPlane :: "ray \<Rightarrow> plane \<Rightarrow> real option" where
  "distanceToPlane r pl =
     (let denominator = dot (pl_normal pl) (r_direction r) in
      if denominator = 0
      then (if distanceToPoint pl (r_origin r) = 0 then Some 0 else None)
      else (let t = - (dot (r_origin r) (pl_normal pl) + pl_constant pl) / denominator
            in if t \<ge> 0 then Some t else None))"

definition intersectPlane :: "ray \<Rightarrow> plane \<Rightarrow> vec3 option" where
  "intersectPlane r pl = (case distanceToPlane r pl of None \<Rightarrow> None | Some t \<Rightarrow> Some (rayAt r t))"

definition getRayPoint :: "CPlane \<Rightarrow> ray \<Rightarrow> vec3 option \<Rightarrow> vec3" where
  "getRayPoint cplane0 r referencePoint =
     (let origin = (case referencePoint of Some p \<Rightarrow> p | None \<Rightarrow> cp_origin cplane0);
          pl = setFromNormalAndCoplanarPoint (cp_normal cplane0) origin
      in case intersectPlane r pl of
           Some result \<Rightarrow> result
         | None \<Rightarrow> rayAt r 10)"

section \<open>The interaction state machine\<close>

datatype InteractionState =
    Idle | Drawing | Drawing_angle_p2 | Offsetting
  | Defining_cplane_p1 | Defining_cplane_p2 | Defining_cplane_p3
  | Defining_cplane_face | Translating_cplane

record DimensionSystem =
  mode :: DimensionType
  cplane :: CPlane
  state :: InteractionState
  startPoint :: "vec3 option"
  endPoint :: "vec3 option"
  angleP2 :: "vec3 option"
  snappingManager :: SnappingManager
  dimensionRenderer :: DimensionRenderer

text \<open>
  What a pointer event brings from outside the core: the hits of the snapping
  manager's ray caster, the hits of the fresh ray caster of the face workflow, the
  pointer ray, and the answer of \<^verbatim>\<open>window.prompt\<close> (\<open>None\<close> when the user cancels
  the prompt).
\<close>

record pointerEvent =
  ev_intersects :: "hit list"
  ev_rawIntersects :: "hit list"
  ev_ray :: ray
  ev_prompt :: "string option"

record camera =
  cam_position :: vec3
  cam_worldDirection :: vec3

text \<open>
  A non-null assertion (\<^verbatim>\<open>this.startPoint!\<close>) on a field that is null makes the
  method call or property read on it throw a \<^verbatim>\<open>TypeError\<close>.
\<close>

datatype error = TypeError

definition newDimensionSystem :: DimensionSystem where
  "newDimensionSystem =
     \<lparr> mode = Linear,
       cplane = \<lparr> cp_origin = Vec3 0 0 0, cp_normal = Vec3 0 1 0 \<rparr>,
       state = Idle, startPoint = None, endPoint = None, angleP2 = None,
       snappingManager = newSnappingManager,
       dimensionRenderer = newDimensionRenderer \<rparr>"

definition setCPlane :: "vec3 \<Rightarrow> vec3 \<Rightarrow> DimensionSystem \<Rightarrow> DimensionSystem" where
  "setCPlane origin n s = s\<lparr>cplane := \<lparr> cp_origin = origin, cp_normal = normalizeV n \<rparr>\<rparr>"

definition setCPlaneToWorld :: "DimensionSystem \<Rightarrow> DimensionSystem" where
  "setCPlaneToWorld s = setCPlane (Vec3 0 0 0) (Vec3 0 1 0) s"

definition setCPlaneToView :: "camera \<Rightarrow> DimensionSystem \<Rightarrow> DimensionSystem" where
  "setCPlaneToView cam s =
     (let n = multiplyScalar (cam_worldDirection cam) (- 1);
          origin = addV (cam_position cam) (multiplyScalar (cam_worldDirection cam) 10)
      in setCPlane origin n s)"

definition reset :: "DimensionSystem \<Rightarrow> DimensionSystem" where
  "reset s = s\<lparr>state := Idle, startPoint := None, endPoint := None, angleP2 := None\<rparr>"

definition cancel :: "DimensionSystem \<Rightarrow> DimensionSystem" where
  "cancel s = (let s1 = reset s in s1\<lparr>dimensionRenderer := clearPreview (dimensionRenderer s1)\<rparr>)"

text \<open>
  The mode is a public field with no setter
  (\<^verbatim>\<open>public mode: DimensionType = 'linear'\<close>): a switch of the mode is the
  assignment \<^verbatim>\<open>dimSystem.mode = v\<close>, which writes that field and nothing else.
  The demo's mode selector follows the assignment with a call of \<^verbatim>\<open>cancel\<close>:
  \<^verbatim>\<open>onChange((v) => { dimSystem.mode = v; dimSystem.cancel(); })\<close>.
\<close>

definition assignMode :: "DimensionType \<Rightarrow> DimensionSystem \<Rightarrow> DimensionSystem" where
  "assignMode v s = s\<lparr>mode := v\<rparr>"

definition startDefineCPlane :: "DimensionSystem \<Rightarrow> DimensionSystem" where
  "startDefineCPlane s = (reset s)\<lparr>state := Defining_cplane_p1\<rparr>"

definition startDefineCPlaneFromFace :: "DimensionSystem \<Rightarrow> DimensionSystem" where
  "startDefineCPlaneFromFace s = (reset s)\<lparr>state := Defining_cplane_face\<rparr>"

definition startTranslateCPlane :: "DimensionSystem \<Rightarrow> DimensionSystem" where
  "startTranslateCPlane s = (reset s)\<lparr>state := Translating_cplane\<rparr>"

definition isDefiningCPlane :: "InteractionState \<Rightarrow> bool" where
  "isDefiningCPlane st =
     (st = Defining_cplane_p1 \<or> st = Defining_cplane_p2 \<or> st = Defining_cplane_p3 \<or>
      st = Defining_cplane_face)"

definition withRenderer ::
    "(DimensionRenderer \<Rightarrow> DimensionRenderer) \<Rightarrow> DimensionSystem \<Rightarrow> DimensionSystem" where
  "withRenderer f s = s\<lparr>dimensionRenderer := f (dimensionRenderer s)\<rparr>"

text \<open>
  \<^verbatim>\<open>onMouseMove\<close> returns the system and the plane it hands to the plane helper's
  \<^verbatim>\<open>update\<close>, if any.
\<close>

definition onMouseMove :: "pointerEvent \<Rightarrow> DimensionSystem \<Rightarrow> DimensionSystem \<times> CPlane option" where
  "onMouseMove ev s =
     (let (snap, sm) = getSnapPoint (ev_intersects ev) (snappingManager s);
          s0 = s\<lparr>snappingManager := sm\<rparr>;
          currentPoint = (case snap of Some r \<Rightarrow> s_point r
                          | None \<Rightarrow> getRayPoint (cplane s0) (ev_ray ev) (startPoint s0))
      in if state s0 = Translating_cplane
         then (s0, Some \<lparr> cp_origin = currentPoint, cp_normal = cp_normal (cplane s0) \<rparr>)
         else if isDefiningCPlane (state s0) then (s0, None)
         else if mode s0 = Leader then
           (case (state s0, startPoint s0, endPoint s0) of
              (Drawing, Some a, _) \<Rightarrow>
                (withRenderer (updatePreview Leader a currentPoint currentPoint None None) s0, None)
            | (Offsetting, Some a, Some b) \<Rightarrow>
                (withRenderer (updatePreview Leader a b currentPoint None None) s0, None)
            | _ \<Rightarrow> (s0, None))
         else if mode s0 = Angle then
           (case (state s0, startPoint s0, endPoint s0, angleP2 s0) of
              (Drawing, Some a, _, _) \<Rightarrow>
                (withRenderer (updatePreview Linear a currentPoint currentPoint None None) s0, None)
            | (Drawing_angle_p2, Some a, Some b, _) \<Rightarrow>
                (withRenderer (updatePreview Angle a b currentPoint (Some currentPoint) None) s0,
                 None)
            | (Offsetting, Some a, Some b, Some c) \<Rightarrow>
                (withRenderer (updatePreview Angle a b currentPoint (Some c) None) s0, None)
            | _ \<Rightarrow> (s0, None))
         else
           (case (state s0, startPoint s0, endPoint s0) of
              (Drawing, Some a, _) \<Rightarrow>
                (withRenderer (updatePreview Linear a currentPoint currentPoint None None) s0, None)
            | (Offsetting, Some a, Some b) \<Rightarrow>
                (withRenderer (updatePreview Linear a b currentPoint None None) s0, None)
            | _ \<Rightarrow> (s0, None)))"

definition onClickDefineP3 :: "SnapResult option \<Rightarrow> DimensionSystem \<Rightarrow> error + DimensionSystem" where
  "onClickDefineP3 snap s =
     (case snap of
        None \<Rightarrow> Inr s
      | Some r \<Rightarrow>
         (case (startPoint s, endPoint s) of
            (Some a, Some b) \<Rightarrow>
              (let p3 = s_point r;
                   v1 = normalizeV (subV b a);
                   v2 = normalizeV (subV p3 a);
                   n = normalizeV (crossVectors v1 v2)
               in if lengthSq n < 0.001 then Inr (reset s)
                  else Inr (reset (setCPlane a n s)))
          | _ \<Rightarrow> Inl TypeError))"

definition onClickDrawing ::
    "SnapResult option \<Rightarrow> ray \<Rightarrow> DimensionSystem \<Rightarrow> error + DimensionSystem" where
  "onClickDrawing snap r s =
     (if mode s = Leader then
        (let point = (case snap of Some sr \<Rightarrow> s_point sr
                      | None \<Rightarrow> getRayPoint (cplane s) r (startPoint s))
         in Inr (s\<lparr>endPoint := Some point, state := Offsetting\<rparr>))
      else
        (case snap of
           None \<Rightarrow> Inr s
         | Some sr \<Rightarrow>
            (let s1 = s\<lparr>endPoint := Some (s_point sr)\<rparr> in
             case startPoint s1 of
               None \<Rightarrow> Inl TypeError
             | Some a \<Rightarrow>
                 if distanceTo a (s_point sr) < 0.001 then Inr s1
                 else if mode s1 = Angle then Inr (s1\<lparr>state := Drawing_angle_p2\<rparr>)
                 else Inr (s1\<lparr>state := Offsetting\<rparr>))))"

definition onClickAngleP2 ::
    "SnapResult option \<Rightarrow> ray \<Rightarrow> DimensionSystem \<Rightarrow> error + DimensionSystem" where
  "onClickAngleP2 snap r s =
     (let point = (case snap of Some sr \<Rightarrow> s_point sr
                   | None \<Rightarrow> getRayPoint (cplane s) r (startPoint s));
          s1 = s\<lparr>angleP2 := Some point\<rparr>
      in case startPoint s1 of
           None \<Rightarrow> Inl TypeError
         | Some a \<Rightarrow>
             if distanceTo a point < 0.001 then Inr s1
             else Inr (s1\<lparr>state := Offsetting\<rparr>))"

definition onClickOffsetting ::
    "SnapResult option \<Rightarrow> ray \<Rightarrow> string option \<Rightarrow> DimensionSystem \<Rightarrow> error + DimensionSystem"
  where
  "onClickOffsetting snap r prompt s =
     (let point = (case snap of Some sr \<Rightarrow> s_point sr
                   | None \<Rightarrow> getRayPoint (cplane s) r (startPoint s));
          finish = (\<lambda>s'. Inr (reset (withRenderer clearPreview s')))
      in if mode s = Leader then
           (case prompt of
              None \<Rightarrow> finish s
            | Some text0 \<Rightarrow>
               (case (startPoint s, endPoint s) of
                  (Some a, Some b) \<Rightarrow>
                    finish (withRenderer (createDimension Leader a b point None (Some text0)) s)
                | _ \<Rightarrow> Inl TypeError))
         else
           (case (startPoint s, endPoint s) of
              (Some a, Some b) \<Rightarrow>
                finish (withRenderer (createDimension (mode s) a b point (angleP2 s) None) s)
            | _ \<Rightarrow> Inl TypeError))"

definition onClick :: "pointerEvent \<Rightarrow> DimensionSystem \<Rightarrow> error + DimensionSystem" where
  "onClick ev s =
     (let (snap, sm) = getSnapPoint (ev_intersects ev) (snappingManager s);
          s0 = s\<lparr>snappingManager := sm\<rparr>
      in case state s0 of
           Translating_cplane \<Rightarrow>
             (let point = (case snap of Some r \<Rightarrow> s_point r
                           | None \<Rightarrow> getRayPoint (cplane s0) (ev_ray ev) None)
              in Inr (reset (setCPlane point (cp_normal (cplane s0)) s0)))
         | Defining_cplane_face \<Rightarrow>
             (case ev_rawIntersects ev of
                [] \<Rightarrow> Inr s0
              | h # _ \<Rightarrow>
                 (case h_face h of
                    None \<Rightarrow> Inr s0
                  | Some f \<Rightarrow> Inr (reset (setCPlane (h_point h) (f_normal f) s0))))
         | Defining_cplane_p1 \<Rightarrow>
             (case snap of
                None \<Rightarrow> Inr s0
              | Some r \<Rightarrow> Inr (s0\<lparr>startPoint := Some (s_point r), state := Defining_cplane_p2\<rparr>))
         | Defining_cplane_p2 \<Rightarrow>
             (case snap of
                None \<Rightarrow> Inr s0
              | Some r \<Rightarrow>
                 (let s1 = s0\<lparr>endPoint := Some (s_point r)\<rparr> in
                  case startPoint s1 of
                    None \<Rightarrow> Inl TypeError
                  | Some a \<Rightarrow>
                      if distanceTo a (s_point r) < 0.001 then Inr s1
                      else Inr (s1\<lparr>state := Defining_cplane_p3\<rparr>)))
         | Defining_cplane_p3 \<Rightarrow> onClickDefineP3 snap s0
         | Idle \<Rightarrow>
             (case snap of
                None \<Rightarrow> Inr s0
              | Some r \<Rightarrow> Inr (s0\<lparr>startPoint := Some (s_point r), state := Drawing\<rparr>))
         | Drawing \<Rightarrow> onClickDrawing snap (ev_ray ev) s0
         | Drawing_angle_p2 \<Rightarrow> onClickAngleP2 snap (ev_ray ev) s0
         | Offsetting \<Rightarrow> onClickOffsetting snap (ev_ray ev) (ev_prompt ev) s0)"

section \<open>Notions of the specification\<close>

subsection \<open>Snap candidates\<close>

text \<open>
  The candidate points of a triangle for the enabled categories, in the order the
  specification fixes: vertices, edge midpoints, face centroid, closest points on
  the edges. An edge of length zero has no closest point.
\<close>

definition candidates :: "SnappingManager \<Rightarrow> vec3 \<Rightarrow> nat \<Rightarrow> vec3 list \<Rightarrow> SnapResult list" where
  "candidates sm point mesh vertices =
     (if snapVertices sm then map (vertexCandidate point mesh) vertices else []) @
     (if snapMidpoints sm then map (midpointCandidate point mesh) (edgesOf vertices) else []) @
     (if snapCentroids sm then [centroidCandidate point mesh vertices] else []) @
     (if snapEdges sm then List.map_filter (edgeCandidate point mesh) (edgesOf vertices) else [])"

text \<open>Only the face of a mesh has candidates.\<close>

definition hitCandidates :: "SnappingManager \<Rightarrow> hit \<Rightarrow> SnapResult list" where
  "hitCandidates sm h =
     (case h_face h of
        None \<Rightarrow> []
      | Some f \<Rightarrow>
          if h_isMesh h \<and> h_isBufferGeometry h
          then candidates sm (h_point h) (h_object h) [f_a f, f_b f, f_c f]
          else [])"

text \<open>
  \<open>nearestOf cs c\<close>: no candidate of \<open>cs\<close> is nearer than \<open>c\<close>.
  \<open>firstNearest cs\<close> is the first candidate of the list that attains the minimum
  distance.
\<close>

definition nearestOf :: "SnapResult list \<Rightarrow> SnapResult \<Rightarrow> bool" where
  "nearestOf cs c = list_all (\<lambda>d. s_distance c \<le> s_distance d) cs"

definition firstNearest :: "SnapResult list \<Rightarrow> SnapResult option" where
  "firstNearest cs = find (nearestOf cs) cs"

subsection \<open>The offset of a linear dimension\<close>

text \<open>
  The perpendicular offset vector as the specification words it: with
  \<open>d = normalize (B - A)\<close>, the vector \<open>O - A\<close> minus its projection onto \<open>d\<close>.
\<close>

definition linearOffsetVector :: "vec3 \<Rightarrow> vec3 \<Rightarrow> vec3 \<Rightarrow> vec3" where
  "linearOffsetVector a b o' =
     (let d = normalizeV (subV b a) in subV (subV o' a) (multiplyScalar d (dot (subV o' a) d)))"

text \<open>
  The distance of a point \<open>p\<close> from the infinite line through \<open>a\<close> and \<open>b\<close>, by
  the cross-product formula. Lemmas \<open>perpDistance_le\<close> and \<open>perpDistance_attained\<close>
  below show that it is the least distance from \<open>p\<close> to a point of the line.
\<close>

definition perpDistanceToLine :: "vec3 \<Rightarrow> vec3 \<Rightarrow> vec3 \<Rightarrow> real" where
  "perpDistanceToLine p a b =
     lengthV (crossVectors (subV p a) (subV b a)) / lengthV (subV b a)"

subsection \<open>The angle between two vectors\<close>

definition analyticAngle :: "vec3 \<Rightarrow> vec3 \<Rightarrow> real" where
  "analyticAngle u v = arccos (dot u v / (lengthV u * lengthV v))"

fun spriteLabel :: "primitive \<Rightarrow> label option" where
  "spriteLabel (Sprite l _ _ _ _ _) = Some l"
| "spriteLabel _ = None"

definition groupLabels :: "group \<Rightarrow> label list" where
  "groupLabels g = List.map_filter spriteLabel g"

subsection \<open>The current style as an argument of \<^verbatim>\<open>setStyle\<close>\<close>

definition asPartial :: "DimensionStyle \<Rightarrow> PartialStyle" where
  "asPartial st =
     \<lparr> p_color = Some (st_color st), p_fontSize = Some (st_fontSize st),
       p_scale = Some (st_scale st), p_depthTest = Some (st_depthTest st),
       p_offset = Some (st_offset st), p_units = Some (st_units st),
       p_textBgColor = Some (st_textBgColor st), p_textMode = Some (st_textMode st) \<rparr>"

subsection \<open>The plane of the free-point resolver\<close>

definition planeAnchor :: "CPlane \<Rightarrow> vec3 option \<Rightarrow> vec3" where
  "planeAnchor cp referencePoint =
     (case referencePoint of Some p \<Rightarrow> p | None \<Rightarrow> cp_origin cp)"

text \<open>
  \<open>onPlane cp referencePoint p\<close>: the point \<open>p\<close> is on the plane through the
  reference point (or the plane's own origin) with the normal of \<open>cp\<close>.
\<close>

definition onPlane :: "CPlane \<Rightarrow> vec3 option \<Rightarrow> vec3 \<Rightarrow> bool" where
  "onPlane cp referencePoint p =
     (dot (cp_normal cp) (subV p (planeAnchor cp referencePoint)) = 0)"

subsection \<open>Sequences of clicks\<close>

text \<open>
  The slots of the scratch buffer that a state relies on are filled: the start point
  in every state after the first captured point, the end point in every state after
  the second.
\<close>

definition buffered :: "DimensionSystem \<Rightarrow> bool" where
  "buffered s =
     ((state s = Drawing \<or> state s = Drawing_angle_p2 \<or> state s = Offsetting \<or>
       state s = Defining_cplane_p2 \<or> state s = Defining_cplane_p3
         \<longrightarrow> startPoint s \<noteq> None) \<and>
      (state s = Drawing_angle_p2 \<or> state s = Offsetting \<or> state s = Defining_cplane_p3
         \<longrightarrow> endPoint s \<noteq> None))"

fun clicks :: "pointerEvent list \<Rightarrow> DimensionSystem \<Rightarrow> error + DimensionSystem" where
  "clicks [] s = Inr s"
| "clicks (ev # evs) s = (case onClick ev s of Inl e \<Rightarrow> Inl e | Inr s' \<Rightarrow> clicks evs s')"

subsection \<open>Sample inputs\<close>

definition unitTriangle :: face where
  "unitTriangle = \<lparr> f_a = Vec3 0 0 0, f_b = Vec3 1 0 0, f_c = Vec3 0 1 0, f_normal = Vec3 0 0 1 \<rparr>"

definition bigTriangle :: face where
  "bigTriangle = \<lparr> f_a = Vec3 0 0 0, f_b = Vec3 3 0 0, f_c = Vec3 0 3 0, f_normal = Vec3 0 0 1 \<rparr>"

text \<open>
  A sliver: its third vertex is the unit vector at an angle of about 0.11 degrees
  from the edge between the first two.
\<close>

definition sliver :: face where
  "sliver = \<lparr> f_a = Vec3 0 0 0, f_b = Vec3 2 0 0,
               f_c = Vec3 (999999 / 1000001) (2000 / 1000001) 0, f_normal = Vec3 0 0 1 \<rparr>"

definition meshHit :: "face \<Rightarrow> vec3 \<Rightarrow> hit" where
  "meshHit f p = \<lparr> h_point = p, h_object = 7, h_isMesh = True, h_isBufferGeometry = True,
                   h_face = Some f \<rparr>"

definition mkRay :: "vec3 \<Rightarrow> vec3 \<Rightarrow> ray" where
  "mkRay origin direction = \<lparr> r_origin = origin, r_direction = direction \<rparr>"

text \<open>A click on the point \<open>p\<close> of a face, seen from 10 units above it.\<close>

definition clickAt :: "face \<Rightarrow> vec3 \<Rightarrow> pointerEvent" where
  "clickAt f p =
     \<lparr> ev_intersects = [meshHit f p], ev_rawIntersects = [meshHit f p],
       ev_ray = mkRay (addV p (Vec3 0 0 10)) (Vec3 0 0 (- 1)), ev_prompt = None \<rparr>"

definition markerAt :: "vec3 \<Rightarrow> SnappingManager" where
  "markerAt p = newSnappingManager\<lparr>markerPosition := p, markerVisible := True\<rparr>"

definition vertexSnap :: "vec3 \<Rightarrow> SnapResult" where
  "vertexSnap p = \<lparr> s_point = p, s_type = Vertex, s_distance = 0, s_object = 7,
                     s_edgeVertices = None \<rparr>"

definition drawingAtOrigin :: DimensionSystem where
  "drawingAtOrigin =
     newDimensionSystem\<lparr>state := Drawing, startPoint := Some (Vec3 0 0 0),
                         snappingManager := markerAt (Vec3 0 0 0)\<rparr>"

definition armAtOrigin :: DimensionSystem where
  "armAtOrigin =
     newDimensionSystem\<lparr>mode := Angle, state := Drawing_angle_p2,
                         startPoint := Some (Vec3 0 0 0), endPoint := Some (Vec3 1 0 0),
                         snappingManager := markerAt (Vec3 1 0 0)\<rparr>"

text \<open>
  The linear dimension started at \<open>(0, 0, 0)\<close> with the pointer moved on to the
  vertex \<open>(1, 0, 0)\<close>, and the same dimension after the click on that vertex.
\<close>

definition previewingFromOrigin :: DimensionSystem where
  "previewingFromOrigin = fst (onMouseMove (clickAt unitTriangle (Vec3 1 0 0)) drawingAtOrigin)"

definition offsettingLinear :: DimensionSystem where
  "offsettingLinear =
     newDimensionSystem\<lparr>state := Offsetting, startPoint := Some (Vec3 0 0 0),
                         endPoint := Some (Vec3 1 0 0),
                         snappingManager := markerAt (Vec3 1 0 0)\<rparr>"

definition worldPlane :: CPlane where
  "worldPlane = \<lparr> cp_origin = Vec3 0 0 0, cp_normal = Vec3 0 1 0 \<rparr>"

definition scenario2 :: DimensionData where
  "scenario2 = \<lparr> d_id = 0, d_type = Linear, d_start = Vec3 0 0 0, d_end = Vec3 2 0 0,
                  d_offsetPoint = Vec3 1 1 0, d_angleP2 = None, d_text = None \<rparr>"

definition scenario3 :: DimensionData where
  "scenario3 = \<lparr> d_id = 0, d_type = Angle, d_start = Vec3 0 0 0, d_end = Vec3 1 0 0,
                  d_offsetPoint = Vec3 0.5 0 0, d_angleP2 = Some (Vec3 0 1 0), d_text = None \<rparr>"

definition armlessAngle :: DimensionData where
  "armlessAngle = \<lparr> d_id = 0, d_type = Angle, d_start = Vec3 0 0 0, d_end = Vec3 1 0 0,
                     d_offsetPoint = Vec3 1 0 0, d_angleP2 = None, d_text = None \<rparr>"


section \<open>Evaluation rules\<close>

lemmas vec_defs = addV_def subV_def multiplyScalar_def divideScalar_def dot_def crossVectors_def
  lengthSq_def lengthV_def normalizeV_def distanceTo_def clamp_def

lemmas snap_defs = getSnapPoint_def snapFeatures_def tryCandidate_def tryEdge_def edgeCandidate_def
  vertexCandidate_def midpointCandidate_def centroidCandidate_def edgesOf_def
  getClosestPointOnLineSegment_def snapThreshold_def hideVisuals_def showVisuals_def
  newSnappingManager_def

lemmas cand_defs = hitCandidates_def candidates_def firstNearest_def nearestOf_def
  edgeCandidate_def vertexCandidate_def midpointCandidate_def centroidCandidate_def edgesOf_def
  getClosestPointOnLineSegment_def snapThreshold_def List.map_filter_def newSnappingManager_def

lemmas plane_defs = getRayPoint_def intersectPlane_def distanceToPlane_def distanceToPoint_def
  setFromNormalAndCoplanarPoint_def rayAt_def worldPlane_def mkRay_def onPlane_def
  planeAnchor_def

lemma sqrt_less_fifth: "(sqrt x * 5 < 1) = (x * 25 < 1)"
proof -
  have s: "sqrt (1 / 25) = 1 / 5"
    by (rule real_sqrt_unique) (simp_all add: power2_eq_square)
  have "(sqrt x * 5 < 1) = (sqrt x < sqrt (1 / 25))" unfolding s by auto
  also have "\<dots> = (x < 1 / 25)" by (rule real_sqrt_less_iff)
  also have "\<dots> = (x * 25 < 1)" by auto
  finally show ?thesis .
qed

section \<open>The snapping engine selects the first nearest candidate\<close>

lemma find_append_opt:
  "find P (xs @ ys) = (case find P xs of Some x \<Rightarrow> Some x | None \<Rightarrow> find P ys)"
  by (induction xs) auto

lemma nearest_exists: "cs \<noteq> [] \<Longrightarrow> \<exists>c \<in> set cs. nearestOf cs c"
proof (induction cs)
  case Nil
  then show ?case by simp
next
  case (Cons a cs)
  show ?case
  proof (cases "cs = []")
    case True
    then show ?thesis by (simp add: nearestOf_def)
  next
    case False
    with Cons obtain c where c: "c \<in> set cs" "nearestOf cs c" by blast
    show ?thesis
    proof (cases "s_distance a \<le> s_distance c")
      case True
      with c have "nearestOf (a # cs) a"
        by (auto simp: nearestOf_def list_all_iff)
      then show ?thesis by auto
    next
      case False
      with c have "nearestOf (a # cs) c"
        by (auto simp: nearestOf_def list_all_iff)
      with c show ?thesis by auto
    qed
  qed
qed

lemma firstNearest_None: "firstNearest cs = None \<longleftrightarrow> cs = []"
  using nearest_exists[of cs] by (auto simp: firstNearest_def find_None_iff)

lemma firstNearest_Some: "firstNearest cs = Some c \<Longrightarrow> c \<in> set cs \<and> nearestOf cs c"
  by (auto simp: firstNearest_def find_Some_iff)

text \<open>
  What \<open>firstNearest\<close> means: its result is a candidate of the list, no candidate
  is nearer, and every candidate before it in the list is strictly farther.
\<close>

lemma firstNearest_first:
  assumes "firstNearest cs = Some c"
  shows "\<exists>i<length cs. cs ! i = c \<and> (\<forall>d\<in>set cs. s_distance c \<le> s_distance d) \<and>
           (\<forall>j<i. s_distance c < s_distance (cs ! j))"
proof -
  from assms obtain i where i: "i < length cs" "cs ! i = c" "nearestOf cs c"
      and before: "\<forall>j<i. \<not> nearestOf cs (cs ! j)"
    by (auto simp: firstNearest_def find_Some_iff)
  have least: "\<forall>d\<in>set cs. s_distance c \<le> s_distance d"
    using i(3) by (simp add: nearestOf_def list_all_iff)
  have "s_distance c < s_distance (cs ! j)" if "j < i" for j
  proof -
    from before that obtain d where d: "d \<in> set cs" "s_distance d < s_distance (cs ! j)"
      by (auto simp: nearestOf_def list_all_iff not_le)
    with least show ?thesis by force
  qed
  with i least show ?thesis by blast
qed

text \<open>Appending a candidate replaces the first nearest one only when it is strictly nearer.\<close>

lemma firstNearest_snoc:
  "firstNearest (cs @ [x]) =
     (case firstNearest cs of None \<Rightarrow> Some x
      | Some c \<Rightarrow> if s_distance x < s_distance c then Some x else Some c)"
proof (cases "firstNearest cs")
  case None
  then have "cs = []" by (simp add: firstNearest_None)
  with None show ?thesis by (simp add: firstNearest_def nearestOf_def)
next
  case (Some c)
  note c = firstNearest_Some[OF Some]
  show ?thesis
  proof (cases "s_distance x < s_distance c")
    case True
    have "find (nearestOf (cs @ [x])) cs = None"
      using c True by (fastforce simp: find_None_iff nearestOf_def list_all_iff)
    moreover have "nearestOf (cs @ [x]) x"
      using c True by (fastforce simp: nearestOf_def list_all_iff)
    ultimately show ?thesis using Some True
      by (simp add: firstNearest_def find_append_opt)
  next
    case False
    have "find (nearestOf (cs @ [x])) cs = find (nearestOf cs) cs"
    proof (rule find_cong)
      show "cs = cs" by simp
    next
      fix e assume "e \<in> set cs"
      then show "nearestOf (cs @ [x]) e = nearestOf cs e"
        using c False by (fastforce simp: nearestOf_def list_all_iff)
    qed
    then show ?thesis using Some False
      by (simp add: firstNearest_def find_append_opt)
  qed
qed

text \<open>The loop of the source, started at a threshold \<open>T\<close>, on any list of candidates.\<close>

lemma foldl_tryCandidate:
  "foldl tryCandidate (T, None) cs =
     (case firstNearest cs of None \<Rightarrow> (T, None)
      | Some c \<Rightarrow> if s_distance c < T then (s_distance c, Some c) else (T, None))"
proof (induction cs rule: rev_induct)
  case Nil
  then show ?case by (simp add: firstNearest_def)
next
  case (snoc x xs)
  then show ?case
    by (auto simp: firstNearest_snoc tryCandidate_def split: option.splits)
qed

lemma foldl_tryEdge:
  "foldl (tryEdge point mesh) b es =
     foldl tryCandidate b (List.map_filter (edgeCandidate point mesh) es)"
  by (induction es arbitrary: b) (auto simp: tryEdge_def map_filter_simps split: option.splits)

lemma snapFeatures_foldl:
  "snapFeatures sm point mesh vs =
     foldl tryCandidate (snapThreshold, None) (candidates sm point mesh vs)"
  by (simp add: snapFeatures_def candidates_def foldl_tryEdge Let_def)

lemma candidates_distance:
  "c \<in> set (candidates sm point mesh vs) \<Longrightarrow> s_distance c = distanceTo (s_point c) point"
  by (auto simp: candidates_def vertexCandidate_def midpointCandidate_def centroidCandidate_def
      edgeCandidate_def Let_def List.map_filter_def split: if_splits option.splits)

lemma hitCandidates_distance:
  "c \<in> set (hitCandidates sm h) \<Longrightarrow> s_distance c = distanceTo (s_point c) (h_point h)"
  by (auto simp: hitCandidates_def candidates_distance split: option.splits if_splits)

lemma getSnapPoint_fold:
  "enabled sm \<Longrightarrow>
   fst (getSnapPoint (h # hs) sm) =
     snd (foldl tryCandidate (snapThreshold, None) (hitCandidates sm h))"
  by (auto simp: getSnapPoint_def hitCandidates_def snapFeatures_foldl Let_def
      split: option.splits)

lemma getSnapPoint_char:
  "enabled sm \<Longrightarrow>
   fst (getSnapPoint (h # hs) sm) =
     (case firstNearest (hitCandidates sm h) of
        None \<Rightarrow> None
      | Some c \<Rightarrow> if s_distance c < snapThreshold then Some c else None)"
  by (simp add: getSnapPoint_fold foldl_tryCandidate split: option.splits)

lemma getSnapPoint_Some_hit:
  "fst (getSnapPoint hits sm) = Some r \<Longrightarrow> enabled sm \<and> hits \<noteq> []"
  by (auto simp: getSnapPoint_def split: if_splits list.splits)

text \<open>
  C1. With snapping enabled, the query on a hit is decided by the candidates of all
  enabled categories taken together, in the order vertices, midpoints, centroid,
  edges: the result is the first candidate of that list that attains the smallest
  distance to the raw hit point, returned when that distance is below the
  threshold. The distance recorded with each candidate is its Euclidean distance to
  the hit point. The query is a total function, so a tie between candidates is
  resolved (to the earlier one) and never fails.
\<close>

theorem getSnapPoint_nearest_first:
  assumes "enabled sm"
  shows "fst (getSnapPoint (h # hs) sm) =
           (case firstNearest (hitCandidates sm h) of
              None \<Rightarrow> None
            | Some c \<Rightarrow> if s_distance c < snapThreshold then Some c else None)
         \<and> list_all (\<lambda>c. s_distance c = distanceTo (s_point c) (h_point h))
             (hitCandidates sm h)"
  using assms by (simp add: getSnapPoint_char list_all_iff hitCandidates_distance)

text \<open>
  A hit exactly on the vertex \<open>(0, 0, 0)\<close> of a triangle, all categories enabled:
  the vertex and the closest points on its two edges are all at distance zero, and
  the vertex, first in the order, is returned.
\<close>

theorem getSnapPoint_nearest_first_witness:
  "enabled newSnappingManager \<and>
   fst (getSnapPoint [meshHit unitTriangle (Vec3 0 0 0)] newSnappingManager) =
     Some \<lparr> s_point = Vec3 0 0 0, s_type = Vertex, s_distance = 0, s_object = 7,
            s_edgeVertices = None \<rparr>"
  using getSnapPoint_nearest_first[of newSnappingManager "meshHit unitTriangle (Vec3 0 0 0)" "[]"]
  by (simp add: cand_defs vec_defs meshHit_def unitTriangle_def Let_def)

text \<open>
  C2. Whenever the query returns a snap result, a surface was hit and the returned
  point is at a Euclidean distance strictly below 0.2 from the raw hit point (the
  distance the result records); and when no candidate of the hit is within 0.2 of
  the hit point, the query returns none although a surface was hit.
\<close>

theorem getSnapPoint_within_threshold:
  "(fst (getSnapPoint hits sm) = Some r \<longrightarrow>
      hits \<noteq> [] \<and> distanceTo (s_point r) (h_point (hd hits)) < 0.2 \<and>
      s_distance r = distanceTo (s_point r) (h_point (hd hits))) \<and>
   (list_all (\<lambda>c. \<not> distanceTo (s_point c) (h_point h) < 0.2) (hitCandidates sm h) \<longrightarrow>
      fst (getSnapPoint (h # hs) sm) = None)"
proof (intro conjI impI)
  assume r: "fst (getSnapPoint hits sm) = Some r"
  then have en: "enabled sm" and ne: "hits \<noteq> []" using getSnapPoint_Some_hit by blast+
  then obtain h' hs' where hits: "hits = h' # hs'" by (cases hits) auto
  from r en have fn: "(case firstNearest (hitCandidates sm h') of None \<Rightarrow> None
            | Some c \<Rightarrow> if s_distance c < snapThreshold then Some c else None) = Some r"
    by (simp add: hits getSnapPoint_char)
  then have "firstNearest (hitCandidates sm h') = Some r \<and> s_distance r < snapThreshold"
    by (cases "firstNearest (hitCandidates sm h')") (simp_all split: if_splits)
  then have "firstNearest (hitCandidates sm h') = Some r" and lt: "s_distance r < snapThreshold"
    by simp_all
  then have "r \<in> set (hitCandidates sm h')" using firstNearest_Some by blast
  then have d: "s_distance r = distanceTo (s_point r) (h_point h')"
    by (rule hitCandidates_distance)
  show "hits \<noteq> []" by fact
  show "distanceTo (s_point r) (h_point (hd hits)) < 0.2"
    using lt d by (simp add: hits snapThreshold_def)
  show "s_distance r = distanceTo (s_point r) (h_point (hd hits))"
    using d by (simp add: hits)
next
  assume far: "list_all (\<lambda>c. \<not> distanceTo (s_point c) (h_point h) < 0.2) (hitCandidates sm h)"
  show "fst (getSnapPoint (h # hs) sm) = None"
  proof (cases "enabled sm")
    case False
    then show ?thesis by (simp add: getSnapPoint_def)
  next
    case True
    show ?thesis
    proof (cases "firstNearest (hitCandidates sm h)")
      case None
      with True show ?thesis by (simp add: getSnapPoint_char)
    next
      case (Some c)
      then have "c \<in> set (hitCandidates sm h)" using firstNearest_Some by blast
      with far have "\<not> s_distance c < snapThreshold"
        by (auto simp: list_all_iff hitCandidates_distance snapThreshold_def)
      with True Some show ?thesis by (simp add: getSnapPoint_char)
    qed
  qed
qed

text \<open>
  A hit at \<open>(0.1, 0, 0)\<close> on an edge of the unit triangle snaps to that edge point,
  at distance zero; a hit at \<open>(1, 0.5, 0)\<close> inside a triangle of side 3 is at least
  0.5 away from every candidate and gives none.
\<close>

theorem getSnapPoint_within_threshold_witness:
  "fst (getSnapPoint [meshHit unitTriangle (Vec3 0.1 0 0)] newSnappingManager) =
     Some \<lparr> s_point = Vec3 0.1 0 0, s_type = Edge, s_distance = 0, s_object = 7,
            s_edgeVertices = Some (Vec3 0 0 0, Vec3 1 0 0) \<rparr> \<and>
   distanceTo (Vec3 0.1 0 0) (Vec3 0.1 0 0) < 0.2 \<and>
   list_all (\<lambda>c. \<not> distanceTo (s_point c) (Vec3 1 0.5 0) < 0.2)
     (hitCandidates newSnappingManager (meshHit bigTriangle (Vec3 1 0.5 0))) \<and>
   fst (getSnapPoint [meshHit bigTriangle (Vec3 1 0.5 0)] newSnappingManager) = None"
proof -
  let ?r = "\<lparr> s_point = Vec3 0.1 0 0, s_type = Edge, s_distance = 0, s_object = 7,
              s_edgeVertices = Some (Vec3 0 0 0, Vec3 1 0 0) \<rparr>"
  have p1: "fst (getSnapPoint [meshHit unitTriangle (Vec3 0.1 0 0)] newSnappingManager) = Some ?r"
    by (simp add: snap_defs vec_defs meshHit_def unitTriangle_def Let_def sqrt_less_fifth)
  have p2: "list_all (\<lambda>c. \<not> distanceTo (s_point c) (Vec3 1 0.5 0) < 0.2)
     (hitCandidates newSnappingManager (meshHit bigTriangle (Vec3 1 0.5 0)))"
    by (simp add: cand_defs vec_defs meshHit_def bigTriangle_def Let_def sqrt_less_fifth)
  from getSnapPoint_within_threshold[of "[meshHit unitTriangle (Vec3 0.1 0 0)]"
      newSnappingManager ?r "meshHit bigTriangle (Vec3 1 0.5 0)" "[]"] p1 p2
  show ?thesis by (simp add: meshHit_def)
qed

section \<open>Vector algebra\<close>

lemma lengthSq_nonneg: "0 \<le> lengthSq u"
  by (simp add: lengthSq_def)

lemma lengthSq_zero_iff: "lengthSq u = 0 \<longleftrightarrow> u = Vec3 0 0 0"
  by (cases u) (auto simp: lengthSq_def add_nonneg_eq_0_iff)

lemma lengthV_zero_iff: "lengthV u = 0 \<longleftrightarrow> u = Vec3 0 0 0"
  by (simp add: lengthV_def lengthSq_zero_iff)

lemma lengthSq_multiplyScalar: "lengthSq (multiplyScalar a k) = k\<^sup>2 * lengthSq a"
  by (cases a) (simp add: lengthSq_def multiplyScalar_def power2_eq_square algebra_simps)

text \<open>Lagrange's identity, and the Cauchy-Schwarz inequality it gives.\<close>

lemma lagrange:
  "lengthSq u * lengthSq v = (dot u v)\<^sup>2 + lengthSq (crossVectors u v)"
  by (cases u; cases v) (simp add: vec_defs power2_eq_square algebra_simps)

lemma cauchy_schwarz: "\<bar>dot u v\<bar> \<le> sqrt (lengthSq u * lengthSq v)"
proof -
  have "(dot u v)\<^sup>2 \<le> lengthSq u * lengthSq v"
    using lagrange[of u v] lengthSq_nonneg[of "crossVectors u v"] by linarith
  then have "sqrt ((dot u v)\<^sup>2) \<le> sqrt (lengthSq u * lengthSq v)"
    by (rule real_sqrt_le_mono)
  then show ?thesis by simp
qed

text \<open>A normalised vector has length one, or zero when the vector is zero.\<close>

lemma lengthSq_normalizeV: "lengthSq (normalizeV c) = (if c = Vec3 0 0 0 then 0 else 1)"
proof (cases "c = Vec3 0 0 0")
  case True
  then show ?thesis by (simp add: vec_defs)
next
  case False
  then have nz: "lengthSq c \<noteq> 0" by (simp add: lengthSq_zero_iff)
  have "(lengthV c)\<^sup>2 = lengthSq c"
    by (simp add: lengthV_def lengthSq_nonneg)
  then have "lengthSq (normalizeV c) = lengthSq c / lengthSq c"
    using False
    by (simp add: normalizeV_def divideScalar_def lengthSq_multiplyScalar lengthV_zero_iff
        power_divide)
  with nz False show ?thesis by simp
qed

section \<open>The linear builder\<close>

subsection \<open>The distance from a line\<close>

lemma cross_along_line:
  "crossVectors (subV p (addV a (multiplyScalar (subV b a) t))) (subV b a) =
   crossVectors (subV p a) (subV b a)"
  by (cases a; cases b; cases p)
     (simp add: addV_def subV_def multiplyScalar_def crossVectors_def algebra_simps)

lemma dot_along_line:
  "dot (subV p (addV a (multiplyScalar (subV b a) t))) (subV b a) =
   dot (subV p a) (subV b a) - t * lengthSq (subV b a)"
  by (cases a; cases b; cases p)
     (simp add: addV_def subV_def multiplyScalar_def dot_def lengthSq_def algebra_simps)

lemma lengthSq_edge_pos: "a \<noteq> b \<Longrightarrow> 0 < lengthSq (subV b a)"
  using lengthSq_nonneg[of "subV b a"] lengthSq_zero_iff[of "subV b a"]
  by (cases a; cases b) (auto simp: subV_def less_eq_real_def)

text \<open>No point of the line through \<open>a\<close> and \<open>b\<close> is nearer to \<open>p\<close> than
  \<open>perpDistanceToLine p a b\<close>, and the foot of the perpendicular is at that distance.\<close>

lemma perpDistance_le:
  assumes "a \<noteq> b"
  shows "perpDistanceToLine p a b \<le> distanceTo p (addV a (multiplyScalar (subV b a) t))"
proof -
  let ?u = "subV p (addV a (multiplyScalar (subV b a) t))"
  let ?ab = "subV b a"
  let ?c = "crossVectors (subV p a) ?ab"
  have ab: "0 < lengthSq ?ab" using assms by (rule lengthSq_edge_pos)
  have "lengthSq ?u * lengthSq ?ab = (dot ?u ?ab)\<^sup>2 + lengthSq ?c"
    using lagrange[of ?u ?ab] by (simp add: cross_along_line)
  then have "lengthSq ?c \<le> lengthSq ?u * lengthSq ?ab"
    using zero_le_power2[of "dot ?u ?ab"] by linarith
  then have "lengthSq ?c / lengthSq ?ab \<le> lengthSq ?u"
    using ab by (simp add: field_simps)
  then have "sqrt (lengthSq ?c / lengthSq ?ab) \<le> sqrt (lengthSq ?u)"
    by (rule real_sqrt_le_mono)
  then show ?thesis
    by (simp add: perpDistanceToLine_def distanceTo_def lengthV_def real_sqrt_divide)
qed

lemma perpDistance_attained:
  assumes "a \<noteq> b"
  shows "distanceTo p (addV a (multiplyScalar (subV b a)
           (dot (subV p a) (subV b a) / lengthSq (subV b a)))) = perpDistanceToLine p a b"
proof -
  let ?t = "dot (subV p a) (subV b a) / lengthSq (subV b a)"
  let ?u = "subV p (addV a (multiplyScalar (subV b a) ?t))"
  let ?ab = "subV b a"
  let ?c = "crossVectors (subV p a) ?ab"
  have ab: "0 < lengthSq ?ab" using assms by (rule lengthSq_edge_pos)
  have "dot ?u ?ab = dot (subV p a) ?ab - ?t * lengthSq ?ab"
    by (rule dot_along_line)
  also have "\<dots> = 0" using ab by simp
  finally have d0: "dot ?u ?ab = 0" .
  have "lengthSq ?u * lengthSq ?ab = lengthSq ?c"
    using lagrange[of ?u ?ab] d0 by (simp add: cross_along_line)
  then have "lengthSq ?u = lengthSq ?c / lengthSq ?ab"
    using ab by (simp add: field_simps)
  then show ?thesis
    by (simp add: perpDistanceToLine_def distanceTo_def lengthV_def real_sqrt_divide)
qed

subsection \<open>The dimension line\<close>

lemma cross_offset_start:
  "crossVectors (subV (addV a (linearOffsetVector a b o')) a) (subV b a) =
   crossVectors (subV o' a) (subV b a)"
  by (cases a; cases b; cases o')
     (simp add: linearOffsetVector_def addV_def subV_def multiplyScalar_def divideScalar_def
        dot_def crossVectors_def normalizeV_def Let_def algebra_simps)

lemma cross_offset_end:
  "crossVectors (subV (addV b (linearOffsetVector a b o')) a) (subV b a) =
   crossVectors (subV o' a) (subV b a)"
  by (cases a; cases b; cases o')
     (simp add: linearOffsetVector_def addV_def subV_def multiplyScalar_def divideScalar_def
        dot_def crossVectors_def normalizeV_def Let_def algebra_simps)

text \<open>
  C3. For a start \<open>A\<close> and an end \<open>B\<close> at least 0.001 apart and any offset point
  \<open>O\<close>, the linear builder returns a group whose first child is the line from
  \<open>A + v\<close> to \<open>B + v\<close>, where \<open>v\<close> is \<open>O - A\<close> minus its projection onto
  \<open>normalize (B - A)\<close>; and both endpoints are at the same perpendicular distance
  from the line through \<open>A\<close> and \<open>B\<close> as \<open>O\<close> is.
\<close>

theorem buildLinearGeometry_offset:
  assumes "0.001 \<le> distanceTo (d_start data) (d_end data)"
  shows "let a = d_start data; b = d_end data; o' = d_offsetPoint data;
             v = linearOffsetVector a b o'
         in (\<exists>rest. buildLinearGeometry st data isPreview =
                      Some (Line [addV a v, addV b v] (mkLineMat st isPreview) # rest)) \<and>
            perpDistanceToLine (addV a v) a b = perpDistanceToLine o' a b \<and>
            perpDistanceToLine (addV b v) a b = perpDistanceToLine o' a b"
  using assms
    cross_offset_start[where a="d_start data" and b="d_end data" and o'="d_offsetPoint data"]
    cross_offset_end[where a="d_start data" and b="d_end data" and o'="d_offsetPoint data"]
  by (simp add: buildLinearGeometry_def Let_def perpDistanceToLine_def linearOffsetVector_def)

text \<open>
  Scenario 2 of the specification: \<open>A = (0, 0, 0)\<close>, \<open>B = (2, 0, 0)\<close>,
  \<open>O = (1, 1, 0)\<close>. The dimension line runs from \<open>(0, 1, 0)\<close> to \<open>(2, 1, 0)\<close>, at
  distance 1 from the base line, as \<open>O\<close> is.
\<close>

theorem buildLinearGeometry_offset_witness:
  "0.001 \<le> distanceTo (Vec3 0 0 0) (Vec3 2 0 0) \<and>
   (\<exists>rest. buildLinearGeometry defaultStyle scenario2 False =
      Some (Line [Vec3 0 1 0, Vec3 2 1 0] (mkLineMat defaultStyle False) # rest)) \<and>
   perpDistanceToLine (Vec3 0 1 0) (Vec3 0 0 0) (Vec3 2 0 0) = 1 \<and>
   perpDistanceToLine (Vec3 2 1 0) (Vec3 0 0 0) (Vec3 2 0 0) = 1 \<and>
   perpDistanceToLine (Vec3 1 1 0) (Vec3 0 0 0) (Vec3 2 0 0) = 1"
proof -
  have h: "0.001 \<le> distanceTo (d_start scenario2) (d_end scenario2)"
    by (simp add: scenario2_def vec_defs)
  have p: "perpDistanceToLine (Vec3 1 1 0) (Vec3 0 0 0) (Vec3 2 0 0) = 1"
    by (simp add: perpDistanceToLine_def vec_defs)
  from buildLinearGeometry_offset[OF h, of defaultStyle False] h p
  show ?thesis by (simp add: scenario2_def linearOffsetVector_def vec_defs Let_def)
qed

section \<open>The angle builder\<close>

lemma angleTo_analytic:
  assumes "u \<noteq> Vec3 0 0 0" "v \<noteq> Vec3 0 0 0"
  shows "angleTo u v = analyticAngle u v"
    and "0 \<le> angleTo u v" and "angleTo u v \<le> pi"
    and "cos (angleTo u v) * (lengthV u * lengthV v) = dot u v"
proof -
  have pu: "0 < lengthSq u" and pv: "0 < lengthSq v"
    using assms lengthSq_nonneg[of u] lengthSq_nonneg[of v] lengthSq_zero_iff[of u]
      lengthSq_zero_iff[of v] by (metis less_eq_real_def)+
  let ?den = "sqrt (lengthSq u * lengthSq v)"
  have den: "0 < ?den" using pu pv by simp
  have den_eq: "?den = lengthV u * lengthV v" by (simp add: lengthV_def real_sqrt_mult)
  have "\<bar>dot u v\<bar> \<le> ?den" by (rule cauchy_schwarz)
  then have b: "- 1 \<le> dot u v / ?den" "dot u v / ?den \<le> 1"
    using den by (simp_all add: field_simps abs_le_iff)
  then have cl: "clamp (dot u v / ?den) (- 1) 1 = dot u v / ?den"
    by (simp add: clamp_def)
  have a: "angleTo u v = arccos (dot u v / ?den)"
    using den cl by (simp add: angleTo_def Let_def)
  show "angleTo u v = analyticAngle u v" by (simp add: a analyticAngle_def den_eq)
  show "0 \<le> angleTo u v" unfolding a using b by (rule arccos_lbound)
  show "angleTo u v \<le> pi" unfolding a using b by (rule arccos_ubound)
  have "cos (angleTo u v) = dot u v / ?den" unfolding a using b by (rule cos_arccos)
  moreover have "lengthV u * lengthV v \<noteq> 0" using assms by (simp add: lengthV_zero_iff)
  ultimately show "cos (angleTo u v) * (lengthV u * lengthV v) = dot u v"
    unfolding den_eq by (metis nonzero_divide_eq_eq)
qed

text \<open>The angle of \<^verbatim>\<open>angleTo\<close> is never reflex, whatever the vectors.\<close>

lemma angleTo_range: "0 \<le> angleTo u v \<and> angleTo u v \<le> pi"
proof (cases "sqrt (lengthSq u * lengthSq v) = 0")
  case True
  then show ?thesis by (simp add: angleTo_def)
next
  case False
  have "- 1 \<le> clamp (dot u v / sqrt (lengthSq u * lengthSq v)) (- 1) 1"
       "clamp (dot u v / sqrt (lengthSq u * lengthSq v)) (- 1) 1 \<le> 1"
    by (simp_all add: clamp_def)
  then show ?thesis using False
    by (simp add: angleTo_def Let_def arccos_lbound arccos_ubound)
qed

text \<open>
  C4. For a center \<open>C\<close> and arm endpoints \<open>P1\<close>, \<open>P2\<close> whose directions from \<open>C\<close>
  are nonzero (parallel or not), and a radius of at least 0.001, the angle builder
  returns a group whose label is the degrees of the analytic angle between
  \<open>P1 - C\<close> and \<open>P2 - C\<close>: the angle the builder computes with \<^verbatim>\<open>angleTo\<close>
  equals that angle, lies in \<open>[0, pi]\<close>, and its cosine is the normalised dot
  product. Over the reals the equality is exact.
\<close>

theorem buildAngleGeometry_angle:
  assumes "d_angleP2 data = Some p2"
    and "subV (d_end data) (d_start data) \<noteq> Vec3 0 0 0"
    and "subV p2 (d_start data) \<noteq> Vec3 0 0 0"
    and "0.001 \<le> distanceTo (d_start data) (d_offsetPoint data)"
  shows "let v1 = subV (d_end data) (d_start data); v2 = subV p2 (d_start data);
             theta = analyticAngle v1 v2
         in map_option groupLabels (buildAngleGeometry st data isPreview) =
              Some [Degrees (radToDeg theta)] \<and>
            angleTo v1 v2 = theta \<and> 0 \<le> theta \<and> theta \<le> pi \<and>
            cos theta * (lengthV v1 * lengthV v2) = dot v1 v2"
  using assms angleTo_analytic[OF assms(2) assms(3)]
  by (simp add: buildAngleGeometry_def Let_def groupLabels_def createTextSprite_def
      map_filter_simps)

text \<open>
  Scenario 3 of the specification: \<open>C = (0, 0, 0)\<close>, \<open>P1 = (1, 0, 0)\<close>,
  \<open>P2 = (0, 1, 0)\<close>, radius point \<open>(0.5, 0, 0)\<close>: the label is 90 degrees.
\<close>

theorem buildAngleGeometry_angle_witness:
  "d_angleP2 scenario3 = Some (Vec3 0 1 0) \<and>
   subV (Vec3 1 0 0) (Vec3 0 0 0) \<noteq> Vec3 0 0 0 \<and>
   subV (Vec3 0 1 0) (Vec3 0 0 0) \<noteq> Vec3 0 0 0 \<and>
   0.001 \<le> distanceTo (Vec3 0 0 0) (Vec3 0.5 0 0) \<and>
   map_option groupLabels (buildAngleGeometry defaultStyle scenario3 False) = Some [Degrees 90] \<and>
   angleTo (Vec3 1 0 0) (Vec3 0 1 0) = pi / 2"
proof -
  have h1: "d_angleP2 scenario3 = Some (Vec3 0 1 0)" by (simp add: scenario3_def)
  have h2: "subV (d_end scenario3) (d_start scenario3) \<noteq> Vec3 0 0 0"
    by (simp add: scenario3_def subV_def)
  have h3: "subV (Vec3 0 1 0) (d_start scenario3) \<noteq> Vec3 0 0 0"
    by (simp add: scenario3_def subV_def)
  have h4: "0.001 \<le> distanceTo (d_start scenario3) (d_offsetPoint scenario3)"
    by (simp add: scenario3_def vec_defs real_sqrt_divide)
  have a: "analyticAngle (Vec3 1 0 0) (Vec3 0 1 0) = pi / 2"
    by (simp add: analyticAngle_def vec_defs)
  from buildAngleGeometry_angle[OF h1 h2 h3 h4, of defaultStyle False] h1 h2 h3 h4 a
  show ?thesis by (simp add: scenario3_def subV_def Let_def radToDeg_def)
qed

section \<open>When a builder returns none\<close>

text \<open>
  C7, as the claim states it, fails: the angle builder also returns none when the
  record has no second arm, whatever the radius. Here the radius is 1.
\<close>

theorem builders_none_counterexample:
  "buildAngleGeometry defaultStyle armlessAngle False = None \<and>
   buildGeometry defaultStyle armlessAngle False = None \<and>
   \<not> distanceTo (d_start armlessAngle) (d_offsetPoint armlessAngle) < 0.001"
  by (simp add: buildGeometry_def buildAngleGeometry_def armlessAngle_def vec_defs)

text \<open>
  C7, amended. The linear builder returns none exactly when the start and the end
  are less than 0.001 apart; the angle builder returns none exactly when the record
  has no second arm or the radius is below 0.001; the leader builder never returns
  none. The builders are total functions with no error result: none is their only
  way of producing no primitive set.
\<close>

theorem builders_none_iff:
  "(buildLinearGeometry st data isPreview = None \<longleftrightarrow>
      distanceTo (d_start data) (d_end data) < 0.001) \<and>
   (buildAngleGeometry st data isPreview = None \<longleftrightarrow>
      d_angleP2 data = None \<or> distanceTo (d_start data) (d_offsetPoint data) < 0.001) \<and>
   (buildGeometry st data isPreview = None \<longleftrightarrow>
      (if d_type data = Angle
       then d_angleP2 data = None \<or> distanceTo (d_start data) (d_offsetPoint data) < 0.001
       else if d_type data = Leader then False
       else distanceTo (d_start data) (d_end data) < 0.001))"
  by (auto simp: buildGeometry_def buildLinearGeometry_def buildAngleGeometry_def
      buildLeaderGeometry_def Let_def split: option.splits)

section \<open>Restyling\<close>

lemma mergeStyle_idem: "mergeStyle (mergeStyle st p) p = mergeStyle st p"
  by (simp add: mergeStyle_def spread_def split: option.splits)

lemma mergeStyle_asPartial: "mergeStyle st (asPartial st') = st'"
  by (simp add: mergeStyle_def spread_def asPartial_def)

text \<open>
  C9. \<^verbatim>\<open>setStyle\<close> applied twice with the same argument gives the same renderer,
  and so the same primitive set, as applied once; it leaves the dimension records
  (and their anchors) as they were; and with the current style as its argument it
  keeps the style, the primitive set being the rebuild of the unchanged records
  under that style.
\<close>

theorem setStyle_idempotent:
  "setStyle p (setStyle p r) = setStyle p r \<and>
   dimensionsGroup (setStyle p (setStyle p r)) = dimensionsGroup (setStyle p r) \<and>
   dimensionData (setStyle p r) = dimensionData r \<and>
   style (setStyle (asPartial (style r)) r) = style r \<and>
   dimensionsGroup (setStyle (asPartial (style r)) r) =
     List.map_filter (\<lambda>data. buildGeometry (style r) data False) (dimensionData r)"
  by (simp add: setStyle_def rebuildAll_def mergeStyle_idem mergeStyle_asPartial)

section \<open>The free-point resolver\<close>

lemma plane_along_ray:
  "dot n (subV (rayAt r t) o') = dot n (subV (r_origin r) o') + t * dot n (r_direction r)"
  by (cases n; cases o'; cases "r_origin r"; cases "r_direction r")
     (simp add: rayAt_def addV_def subV_def multiplyScalar_def dot_def algebra_simps)

lemma distanceToPoint_plane:
  "distanceToPoint (setFromNormalAndCoplanarPoint n o') p = dot n (subV p o')"
  by (cases n; cases o'; cases p)
     (simp add: distanceToPoint_def setFromNormalAndCoplanarPoint_def subV_def dot_def
        algebra_simps)

lemma distanceToPlane_param:
  "dot (r_origin r) n + pl_constant (setFromNormalAndCoplanarPoint n o') =
   dot n (subV (r_origin r) o')"
  by (cases n; cases o'; cases "r_origin r")
     (simp add: setFromNormalAndCoplanarPoint_def subV_def dot_def algebra_simps)

lemma pl_normal_plane: "pl_normal (setFromNormalAndCoplanarPoint n o') = n"
  by (simp add: setFromNormalAndCoplanarPoint_def)

lemma distanceToPlane_plane:
  "distanceToPlane r (setFromNormalAndCoplanarPoint n o') =
     (if dot n (r_direction r) = 0
      then (if dot n (subV (r_origin r) o') = 0 then Some 0 else None)
      else (if 0 \<le> - dot n (subV (r_origin r) o') / dot n (r_direction r)
            then Some (- dot n (subV (r_origin r) o') / dot n (r_direction r)) else None))"
  unfolding distanceToPlane_def Let_def distanceToPlane_param distanceToPoint_plane
    pl_normal_plane
  by simp

lemma distanceToPlane_Some:
  assumes "distanceToPlane r (setFromNormalAndCoplanarPoint n o') = Some t"
  shows "0 \<le> t \<and> dot n (subV (rayAt r t) o') = 0"
proof (cases "dot n (r_direction r) = 0")
  case True
  with assms have "t = 0" "dot n (subV (r_origin r) o') = 0"
    by (auto simp: distanceToPlane_plane split: if_splits)
  with True show ?thesis by (simp add: plane_along_ray)
next
  case False
  with assms have t: "t = - dot n (subV (r_origin r) o') / dot n (r_direction r)" "0 \<le> t"
    by (auto simp: distanceToPlane_plane split: if_splits)
  with False show ?thesis by (simp add: plane_along_ray)
qed

lemma distanceToPlane_None:
  assumes "distanceToPlane r (setFromNormalAndCoplanarPoint n o') = None" "0 \<le> t"
  shows "dot n (subV (rayAt r t) o') \<noteq> 0"
proof (cases "dot n (r_direction r) = 0")
  case True
  with assms have "dot n (subV (r_origin r) o') \<noteq> 0"
    by (auto simp: distanceToPlane_plane split: if_splits)
  with True show ?thesis by (simp add: plane_along_ray)
next
  case False
  with assms have neg: "- dot n (subV (r_origin r) o') / dot n (r_direction r) < 0"
    by (auto simp: distanceToPlane_plane split: if_splits)
  show ?thesis
  proof
    assume "dot n (subV (rayAt r t) o') = 0"
    then have "t * dot n (r_direction r) = - dot n (subV (r_origin r) o')"
      by (simp add: plane_along_ray)
    then have "t = - dot n (subV (r_origin r) o') / dot n (r_direction r)"
      using False by (simp add: field_simps)
    with neg assms(2) show False by simp
  qed
qed

text \<open>
  C8, as the claim states it, fails: a ray that lies in the plane is parallel to it,
  and the resolver returns the ray's origin, not the point 10 units along the ray.
  Here the plane is the world plane \<open>y = 0\<close> and the ray starts on it at
  \<open>(0, 0, 5)\<close> and runs along \<open>- z\<close>.
\<close>

theorem getRayPoint_parallel_counterexample:
  "dot (cp_normal worldPlane) (r_direction (mkRay (Vec3 0 0 5) (Vec3 0 0 (- 1)))) = 0 \<and>
   getRayPoint worldPlane (mkRay (Vec3 0 0 5) (Vec3 0 0 (- 1))) None = Vec3 0 0 5 \<and>
   rayAt (mkRay (Vec3 0 0 5) (Vec3 0 0 (- 1))) 10 = Vec3 0 0 (- 5) \<and>
   getRayPoint worldPlane (mkRay (Vec3 0 0 5) (Vec3 0 0 (- 1))) None \<noteq>
     rayAt (mkRay (Vec3 0 0 5) (Vec3 0 0 (- 1))) 10"
  by (simp add: plane_defs vec_defs Let_def)

text \<open>
  C8, amended. The resolver is a total function: it returns a point for every ray,
  plane and optional reference point. The plane is the one through the reference
  point (or the plane's own origin) with the plane's normal. When the ray meets
  that plane at a parameter \<open>t \<ge> 0\<close>, the result is a point of the ray on the
  plane; when it does not (the ray is parallel to the plane and starts off it, or
  the plane is behind the ray), the result is the point 10 units along the ray. In
  particular a parallel ray that starts off the plane gives the fallback point, and
  a ray that lies in the plane gives its own origin.
\<close>

theorem getRayPoint_resolves:
  "((\<exists>t\<ge>0. onPlane cp ref (rayAt r t)) \<longrightarrow>
      onPlane cp ref (getRayPoint cp r ref) \<and> (\<exists>t\<ge>0. getRayPoint cp r ref = rayAt r t)) \<and>
   (\<not> (\<exists>t\<ge>0. onPlane cp ref (rayAt r t)) \<longrightarrow> getRayPoint cp r ref = rayAt r 10) \<and>
   (dot (cp_normal cp) (r_direction r) = 0 \<and> \<not> onPlane cp ref (r_origin r) \<longrightarrow>
      getRayPoint cp r ref = rayAt r 10) \<and>
   (dot (cp_normal cp) (r_direction r) = 0 \<and> onPlane cp ref (r_origin r) \<longrightarrow>
      getRayPoint cp r ref = r_origin r)"
proof -
  let ?n = "cp_normal cp" and ?o = "planeAnchor cp ref"
  let ?d = "distanceToPlane r (setFromNormalAndCoplanarPoint ?n ?o)"
  have g: "getRayPoint cp r ref = (case ?d of Some t \<Rightarrow> rayAt r t | None \<Rightarrow> rayAt r 10)"
    by (simp add: getRayPoint_def intersectPlane_def planeAnchor_def Let_def split: option.splits)
  have a: "(\<exists>t\<ge>0. onPlane cp ref (rayAt r t)) \<longrightarrow>
      onPlane cp ref (getRayPoint cp r ref) \<and> (\<exists>t\<ge>0. getRayPoint cp r ref = rayAt r t)"
  proof (cases ?d)
    case None
    then show ?thesis using distanceToPlane_None[of r ?n ?o] by (auto simp: onPlane_def)
  next
    case (Some t)
    then show ?thesis using distanceToPlane_Some[of r ?n ?o t] by (auto simp: g onPlane_def)
  qed
  have b: "\<not> (\<exists>t\<ge>0. onPlane cp ref (rayAt r t)) \<longrightarrow> getRayPoint cp r ref = rayAt r 10"
  proof (cases ?d)
    case None
    then show ?thesis by (simp add: g)
  next
    case (Some t)
    then show ?thesis using distanceToPlane_Some[of r ?n ?o t] by (auto simp: onPlane_def)
  qed
  have c: "dot ?n (r_direction r) = 0 \<and> \<not> onPlane cp ref (r_origin r) \<longrightarrow>
      getRayPoint cp r ref = rayAt r 10"
    by (simp add: g onPlane_def distanceToPlane_plane)
  have d: "dot ?n (r_direction r) = 0 \<and> onPlane cp ref (r_origin r) \<longrightarrow>
      getRayPoint cp r ref = r_origin r"
    by (cases "r_origin r"; cases "r_direction r")
       (simp add: g onPlane_def distanceToPlane_plane rayAt_def addV_def multiplyScalar_def)
  from a b c d show ?thesis by blast
qed

text \<open>
  Four rays against the world plane \<open>y = 0\<close>: one looking down from \<open>(1, 5, 2)\<close>
  meets it at \<open>(1, 0, 2)\<close>; one looking up from there never meets it and gives the
  point 10 units up; one running level above it gives the point 10 units along;
  one lying in it gives its origin.
\<close>

theorem getRayPoint_resolves_witness:
  "getRayPoint worldPlane (mkRay (Vec3 1 5 2) (Vec3 0 (- 1) 0)) None = Vec3 1 0 2 \<and>
   onPlane worldPlane None (Vec3 1 0 2) \<and>
   getRayPoint worldPlane (mkRay (Vec3 1 5 2) (Vec3 0 1 0)) None = Vec3 1 15 2 \<and>
   getRayPoint worldPlane (mkRay (Vec3 1 5 2) (Vec3 1 0 0)) None = Vec3 11 5 2 \<and>
   getRayPoint worldPlane (mkRay (Vec3 0 0 5) (Vec3 0 0 (- 1))) None = Vec3 0 0 5"
proof -
  let ?down = "mkRay (Vec3 1 5 2) (Vec3 0 (- 1) 0)"
  let ?up = "mkRay (Vec3 1 5 2) (Vec3 0 1 0)"
  let ?level = "mkRay (Vec3 1 5 2) (Vec3 1 0 0)"
  let ?inplane = "mkRay (Vec3 0 0 5) (Vec3 0 0 (- 1))"
  have "onPlane worldPlane None (rayAt ?down 5)"
    by (simp add: plane_defs vec_defs)
  then have meets: "\<exists>t\<ge>0. onPlane worldPlane None (rayAt ?down t)"
    by (intro exI[of _ 5]) simp
  have away: "\<not> (\<exists>t\<ge>0. onPlane worldPlane None (rayAt ?up t))"
    by (auto simp: plane_defs vec_defs)
  have level: "dot (cp_normal worldPlane) (r_direction ?level) = 0 \<and>
      \<not> onPlane worldPlane None (r_origin ?level)"
    by (simp add: plane_defs vec_defs)
  have inplane: "dot (cp_normal worldPlane) (r_direction ?inplane) = 0 \<and>
      onPlane worldPlane None (r_origin ?inplane)"
    by (simp add: plane_defs vec_defs)
  have 1: "onPlane worldPlane None (getRayPoint worldPlane ?down None)"
    using getRayPoint_resolves[of worldPlane None ?down] meets by blast
  have 2: "getRayPoint worldPlane ?up None = rayAt ?up 10"
    using getRayPoint_resolves[of worldPlane None ?up] away by blast
  have 3: "getRayPoint worldPlane ?level None = rayAt ?level 10"
    using getRayPoint_resolves[of worldPlane None ?level] level by blast
  have 4: "getRayPoint worldPlane ?inplane None = r_origin ?inplane"
    using getRayPoint_resolves[of worldPlane None ?inplane] inplane by blast
  have e: "getRayPoint worldPlane ?down None = Vec3 1 0 2"
    by (simp add: plane_defs vec_defs Let_def)
  from 1 2 3 4 e show ?thesis
    by (simp add: rayAt_def mkRay_def addV_def multiplyScalar_def)
qed

section \<open>The interaction state machine\<close>

subsection \<open>Clicks never raise\<close>

lemma buffered_snap [simp]: "buffered (s\<lparr>snappingManager := sm\<rparr>) = buffered s"
  by (simp add: buffered_def)

lemma buffered_reset [simp]: "buffered (reset s)"
  by (simp add: buffered_def reset_def)

lemma buffered_new: "buffered newDimensionSystem"
  by (simp add: buffered_def newDimensionSystem_def)

text \<open>
  The non-null assertions of \<^verbatim>\<open>onClick\<close> hold in every state the machine reaches:
  a click in a state whose slots are filled returns a state whose slots are filled.
\<close>

lemma onClick_never_raises:
  assumes "buffered s"
  shows "\<exists>s'. onClick ev s = Inr s' \<and> buffered s'"
proof -
  obtain snap sm where g: "getSnapPoint (ev_intersects ev) (snappingManager s) = (snap, sm)"
    by (cases "getSnapPoint (ev_intersects ev) (snappingManager s)")
  show ?thesis
  proof (cases "state s")
    case Idle
    then show ?thesis using assms g
      by (auto simp: onClick_def buffered_def Let_def split: option.splits)
  next
    case Drawing
    then show ?thesis using assms g
      by (auto simp: onClick_def onClickDrawing_def buffered_def Let_def split: option.splits)
  next
    case Drawing_angle_p2
    then show ?thesis using assms g
      by (auto simp: onClick_def onClickAngleP2_def buffered_def Let_def split: option.splits)
  next
    case Offsetting
    then show ?thesis using assms g
      by (auto simp: onClick_def onClickOffsetting_def buffered_def Let_def withRenderer_def
          reset_def split: option.splits)
  next
    case Defining_cplane_p1
    then show ?thesis using assms g
      by (auto simp: onClick_def buffered_def Let_def split: option.splits)
  next
    case Defining_cplane_p2
    then show ?thesis using assms g
      by (auto simp: onClick_def buffered_def Let_def split: option.splits)
  next
    case Defining_cplane_p3
    then show ?thesis using assms g
      by (auto simp: onClick_def onClickDefineP3_def buffered_def Let_def reset_def setCPlane_def
          split: option.splits)
  next
    case Defining_cplane_face
    then show ?thesis using assms g
      by (auto simp: onClick_def buffered_def Let_def reset_def setCPlane_def
          split: option.splits list.splits)
  next
    case Translating_cplane
    then show ?thesis using assms g
      by (auto simp: onClick_def buffered_def Let_def reset_def setCPlane_def
          split: option.splits)
  qed
qed

subsection \<open>A click on the start point\<close>

lemma snap_origin:
  assumes "sm0 = newSnappingManager \<or> sm0 = markerAt (Vec3 0 0 0) \<or> sm0 = markerAt (Vec3 1 0 0)"
  shows "getSnapPoint [meshHit unitTriangle (Vec3 0 0 0)] sm0 =
           (Some (vertexSnap (Vec3 0 0 0)), markerAt (Vec3 0 0 0))"
  using assms
  by (auto simp: snap_defs vec_defs meshHit_def unitTriangle_def markerAt_def vertexSnap_def
      Let_def)

lemma snap_v1:
  "getSnapPoint [meshHit unitTriangle (Vec3 1 0 0)] (markerAt (Vec3 0 0 0)) =
     (Some (vertexSnap (Vec3 1 0 0)), markerAt (Vec3 1 0 0))"
  by (simp add: snap_defs vec_defs meshHit_def unitTriangle_def markerAt_def vertexSnap_def Let_def
      sqrt_less_fifth)

text \<open>
  C10. In the state \<open>Drawing\<close> of a mode other than leader (linear, aligned or
  angle), a snapped click on a point within 0.001 of the buffered start point
  returns the system with the clicked point written into the end-point slot and
  nothing else changed but the snap marker: the state is still \<open>Drawing\<close>. In the
  state \<open>Drawing_angle_p2\<close> the same click writes the second-arm slot and leaves the
  state as it was.
\<close>

theorem onClick_degenerate_click:
  assumes "getSnapPoint (ev_intersects ev) (snappingManager s) = (Some r, sm)"
    and "startPoint s = Some a"
    and "distanceTo a (s_point r) < 0.001"
  shows "(state s = Drawing \<and> mode s \<noteq> Leader \<longrightarrow>
            onClick ev s = Inr (s\<lparr>snappingManager := sm, endPoint := Some (s_point r)\<rparr>)) \<and>
         (state s = Drawing_angle_p2 \<longrightarrow>
            onClick ev s = Inr (s\<lparr>snappingManager := sm, angleP2 := Some (s_point r)\<rparr>))"
  using assms
  by (simp add: onClick_def onClickDrawing_def onClickAngleP2_def Let_def)

text \<open>
  Two clicks on the vertex \<open>(0, 0, 0)\<close> in linear mode: the first starts the
  dimension, the second is rejected (the state stays \<open>Drawing\<close>) and fills the
  end-point slot, which was empty. In angle mode, after the center \<open>(0, 0, 0)\<close>
  and the first arm \<open>(1, 0, 0)\<close>, a click on the center again is rejected and
  fills the second-arm slot.
\<close>

theorem onClick_degenerate_click_witness:
  "clicks [clickAt unitTriangle (Vec3 0 0 0)] newDimensionSystem = Inr drawingAtOrigin \<and>
   state drawingAtOrigin = Drawing \<and> mode drawingAtOrigin \<noteq> Leader \<and>
   endPoint drawingAtOrigin = None \<and>
   onClick (clickAt unitTriangle (Vec3 0 0 0)) drawingAtOrigin =
     Inr (drawingAtOrigin\<lparr>endPoint := Some (Vec3 0 0 0)\<rparr>) \<and>
   clicks [clickAt unitTriangle (Vec3 0 0 0), clickAt unitTriangle (Vec3 1 0 0)]
     (newDimensionSystem\<lparr>mode := Angle\<rparr>) = Inr armAtOrigin \<and>
   state armAtOrigin = Drawing_angle_p2 \<and> angleP2 armAtOrigin = None \<and>
   onClick (clickAt unitTriangle (Vec3 0 0 0)) armAtOrigin =
     Inr (armAtOrigin\<lparr>snappingManager := markerAt (Vec3 0 0 0), angleP2 := Some (Vec3 0 0 0)\<rparr>)"
proof -
  let ?ev = "clickAt unitTriangle (Vec3 0 0 0)"
  have s1: "getSnapPoint (ev_intersects ?ev) (snappingManager drawingAtOrigin) =
      (Some (vertexSnap (Vec3 0 0 0)), markerAt (Vec3 0 0 0))"
    by (simp add: clickAt_def drawingAtOrigin_def snap_origin)
  have s2: "getSnapPoint (ev_intersects ?ev) (snappingManager armAtOrigin) =
      (Some (vertexSnap (Vec3 0 0 0)), markerAt (Vec3 0 0 0))"
    by (simp add: clickAt_def armAtOrigin_def snap_origin)
  have d: "distanceTo (Vec3 0 0 0) (s_point (vertexSnap (Vec3 0 0 0))) < 0.001"
    by (simp add: vertexSnap_def vec_defs)
  have a: "onClick ?ev drawingAtOrigin =
      Inr (drawingAtOrigin\<lparr>snappingManager := markerAt (Vec3 0 0 0),
            endPoint := Some (s_point (vertexSnap (Vec3 0 0 0)))\<rparr>)"
    using onClick_degenerate_click[OF s1 _ d]
    by (simp add: drawingAtOrigin_def newDimensionSystem_def)
  have b: "onClick ?ev armAtOrigin =
      Inr (armAtOrigin\<lparr>snappingManager := markerAt (Vec3 0 0 0),
            angleP2 := Some (s_point (vertexSnap (Vec3 0 0 0)))\<rparr>)"
    using onClick_degenerate_click[OF s2 _ d]
    by (simp add: armAtOrigin_def newDimensionSystem_def)
  have c1: "clicks [?ev] newDimensionSystem = Inr drawingAtOrigin"
    by (simp add: onClick_def clickAt_def snap_origin drawingAtOrigin_def newDimensionSystem_def
        vertexSnap_def)
  have c2: "clicks [?ev, clickAt unitTriangle (Vec3 1 0 0)] (newDimensionSystem\<lparr>mode := Angle\<rparr>)
      = Inr armAtOrigin"
    by (simp add: onClick_def onClickDrawing_def clickAt_def snap_origin snap_v1 armAtOrigin_def
        newDimensionSystem_def vertexSnap_def vec_defs)
  from a b c1 c2 show ?thesis
    by (simp add: drawingAtOrigin_def armAtOrigin_def newDimensionSystem_def vertexSnap_def)
qed

subsection \<open>The three-point definition of the plane\<close>

text \<open>
  The test \<^verbatim>\<open>normal.lengthSq() < 0.001\<close> is made on the cross product after it
  has been normalised, so it sees a length of one or zero: it holds exactly when
  the cross product is the zero vector.
\<close>

lemma defineP3_abort_iff:
  "lengthSq (normalizeV c) < 0.001 \<longleftrightarrow> c = Vec3 0 0 0"
  by (simp add: lengthSq_normalizeV)

text \<open>When the cross product is exactly zero the definition is aborted and the
  plane is kept.\<close>

lemma onClickDefineP3_collinear:
  assumes "startPoint s = Some a" "endPoint s = Some b"
    and "crossVectors (normalizeV (subV b a)) (normalizeV (subV (s_point r) a)) = Vec3 0 0 0"
  shows "onClickDefineP3 (Some r) s = Inr (reset s) \<and> cplane (reset s) = cplane s"
  using assms by (simp add: onClickDefineP3_def Let_def lengthSq_normalizeV reset_def)

lemma snap_sliver_a:
  "getSnapPoint [meshHit sliver (Vec3 0 0 0)] newSnappingManager =
     (Some (vertexSnap (Vec3 0 0 0)), markerAt (Vec3 0 0 0))"
  by (simp add: snap_defs vec_defs meshHit_def sliver_def markerAt_def vertexSnap_def Let_def)

lemma snap_sliver_b:
  "getSnapPoint [meshHit sliver (Vec3 2 0 0)] (markerAt (Vec3 0 0 0)) =
     (Some (vertexSnap (Vec3 2 0 0)), markerAt (Vec3 2 0 0))"
  by (simp add: snap_defs vec_defs meshHit_def sliver_def markerAt_def vertexSnap_def Let_def
      sqrt_less_fifth)

lemma snap_sliver_c:
  "getSnapPoint [meshHit sliver (Vec3 (999999 / 1000001) (2000 / 1000001) 0)]
     (markerAt (Vec3 2 0 0)) =
     (Some (vertexSnap (Vec3 (999999 / 1000001) (2000 / 1000001) 0)),
      markerAt (Vec3 (999999 / 1000001) (2000 / 1000001) 0))"
  by (simp add: snap_defs vec_defs meshHit_def sliver_def markerAt_def vertexSnap_def Let_def
      sqrt_less_fifth)

text \<open>
  C5 claims that a three-point definition whose cross product
  \<open>cross (normalize (P2 - P1)) (normalize (P3 - P1))\<close> has a magnitude near zero is
  aborted and the plane kept. The code does so only for a magnitude of exactly
  zero. Here the three vertices of the sliver are clicked in turn, starting from
  the world plane: the cross product is \<open>(0, 0, 2000 / 1000001)\<close>, of magnitude
  below 0.002, and the plane is redefined with the normal \<open>(0, 0, 1)\<close>.
\<close>

theorem define_plane_near_collinear:
  "crossVectors (normalizeV (subV (Vec3 2 0 0) (Vec3 0 0 0)))
     (normalizeV (subV (Vec3 (999999 / 1000001) (2000 / 1000001) 0) (Vec3 0 0 0))) =
     Vec3 0 0 (2000 / 1000001) \<and>
   lengthV (Vec3 0 0 (2000 / 1000001)) < 0.002 \<and>
   cplane newDimensionSystem = \<lparr> cp_origin = Vec3 0 0 0, cp_normal = Vec3 0 1 0 \<rparr> \<and>
   clicks [clickAt sliver (Vec3 0 0 0), clickAt sliver (Vec3 2 0 0),
           clickAt sliver (Vec3 (999999 / 1000001) (2000 / 1000001) 0)]
       (startDefineCPlane newDimensionSystem) =
     Inr (newDimensionSystem
           \<lparr>cplane := \<lparr> cp_origin = Vec3 0 0 0, cp_normal = Vec3 0 0 1 \<rparr>,
            snappingManager := markerAt (Vec3 (999999 / 1000001) (2000 / 1000001) 0)\<rparr>)"
proof -
  let ?p3 = "Vec3 (999999 / 1000001) (2000 / 1000001) 0"
  have n1: "normalizeV (Vec3 2 0 0) = Vec3 1 0 0"
    by (simp add: vec_defs)
  have n2: "normalizeV ?p3 = ?p3"
    by (simp add: vec_defs)
  have c: "crossVectors (Vec3 1 0 0) ?p3 = Vec3 0 0 (2000 / 1000001)"
    by (simp add: crossVectors_def)
  have r: "sqrt ((2000 / 1000001)\<^sup>2) = 2000 / (1000001::real)" by simp
  then have lv: "lengthV (Vec3 0 0 (2000 / 1000001)) = 2000 / 1000001"
    by (simp add: lengthV_def lengthSq_def power2_eq_square)
  then have n3: "normalizeV (Vec3 0 0 (2000 / 1000001)) = Vec3 0 0 1"
    by (simp add: normalizeV_def divideScalar_def multiplyScalar_def)
  have n4: "normalizeV (Vec3 0 0 1) = Vec3 0 0 1" by (simp add: vec_defs)
  have l1: "\<not> lengthSq (Vec3 0 0 1) < 0.001" by (simp add: lengthSq_def)
  have sub: "subV (Vec3 2 0 0) (Vec3 0 0 0) = Vec3 2 0 0" "subV ?p3 (Vec3 0 0 0) = ?p3"
    by (simp_all add: subV_def)
  have d: "\<not> distanceTo (Vec3 0 0 0) (Vec3 2 0 0) < 0.001" by (simp add: vec_defs)
  from l1 d show ?thesis
    by (simp add: sub n1 n2 n3 n4 c lv snap_sliver_a snap_sliver_b snap_sliver_c
        onClick_def onClickDefineP3_def clickAt_def startDefineCPlane_def reset_def setCPlane_def
        newDimensionSystem_def vertexSnap_def Let_def)
qed

subsection \<open>Cancelling and switching the mode\<close>

lemma buildLinearGeometry_Some:
  "\<not> distanceTo (d_start data) (d_end data) < 0.001 \<Longrightarrow>
   \<exists>g. buildLinearGeometry st data isPreview = Some g"
  by (simp add: buildLinearGeometry_def Let_def)

lemma snap_v2:
  "getSnapPoint [meshHit unitTriangle (Vec3 0 1 0)] (markerAt (Vec3 1 0 0)) =
     (Some (vertexSnap (Vec3 0 1 0)), markerAt (Vec3 0 1 0))"
  by (simp add: snap_defs vec_defs meshHit_def unitTriangle_def markerAt_def vertexSnap_def Let_def
      sqrt_less_fifth)

text \<open>After the pointer move the machine is in \<open>Drawing\<close> and shows a preview.\<close>

lemma previewing_facts:
  "state previewingFromOrigin = Drawing \<and>
   startPoint previewingFromOrigin = Some (Vec3 0 0 0) \<and>
   mode previewingFromOrigin = Linear \<and>
   previewGroup (dimensionRenderer previewingFromOrigin) \<noteq> []"
proof -
  let ?d = "\<lparr> d_id = - 1, d_type = Linear, d_start = Vec3 0 0 0, d_end = Vec3 1 0 0,
              d_offsetPoint = Vec3 1 0 0, d_angleP2 = None, d_text = None \<rparr>"
  have "\<not> distanceTo (d_start ?d) (d_end ?d) < 0.001" by (simp add: vec_defs)
  then obtain g where g: "buildLinearGeometry defaultStyle ?d True = Some g"
    using buildLinearGeometry_Some by blast
  have p: "previewingFromOrigin =
      drawingAtOrigin\<lparr>snappingManager := markerAt (Vec3 1 0 0),
        dimensionRenderer := newDimensionRenderer\<lparr>previewGroup := [g]\<rparr>\<rparr>"
    by (simp add: previewingFromOrigin_def onMouseMove_def clickAt_def drawingAtOrigin_def
        newDimensionSystem_def snap_v1 vertexSnap_def isDefiningCPlane_def withRenderer_def
        updatePreview_def buildGeometry_def newDimensionRenderer_def g)
  show ?thesis by (simp add: p drawingAtOrigin_def newDimensionSystem_def)
qed

text \<open>
  C6, as the claim states it, fails for the switch of the mode. After a click on
  the vertex \<open>(0, 0, 0)\<close> and a pointer move to \<open>(1, 0, 0)\<close> in linear mode the
  machine is in \<open>Drawing\<close> with a preview; the switch to angle mode leaves it in
  \<open>Drawing\<close>, with the start point still in the buffer and the preview still
  shown.
\<close>

theorem mode_switch_counterexample:
  "clicks [clickAt unitTriangle (Vec3 0 0 0)] newDimensionSystem = Inr drawingAtOrigin \<and>
   state previewingFromOrigin = Drawing \<and>
   state (assignMode Angle previewingFromOrigin) = Drawing \<and>
   startPoint (assignMode Angle previewingFromOrigin) = Some (Vec3 0 0 0) \<and>
   previewGroup (dimensionRenderer (assignMode Angle previewingFromOrigin)) \<noteq> []"
  using previewing_facts
  by (simp add: assignMode_def onClick_def clickAt_def snap_origin drawingAtOrigin_def
      newDimensionSystem_def vertexSnap_def)

text \<open>
  What a switch of the mode that is not followed by a cancel leads to: in linear
  mode two clicks bring the machine to \<open>Offsetting\<close>; after the switch to angle
  mode the third click stores an angle record with no second arm, for which the
  angle builder returns none, so nothing is drawn.
\<close>

lemma bare_mode_switch_stores_armless_angle:
  "clicks [clickAt unitTriangle (Vec3 0 0 0), clickAt unitTriangle (Vec3 1 0 0)]
     newDimensionSystem = Inr offsettingLinear \<and>
   onClick (clickAt unitTriangle (Vec3 0 1 0)) (assignMode Angle offsettingLinear) =
     Inr (newDimensionSystem
           \<lparr>mode := Angle, snappingManager := markerAt (Vec3 0 1 0),
            dimensionRenderer := newDimensionRenderer
              \<lparr>dimensionData :=
                 [\<lparr> d_id = 0, d_type = Angle, d_start = Vec3 0 0 0, d_end = Vec3 1 0 0,
                    d_offsetPoint = Vec3 0 1 0, d_angleP2 = None, d_text = None \<rparr>],
               nextId := 1\<rparr>\<rparr>)"
  by (simp add: assignMode_def onClick_def onClickDrawing_def onClickOffsetting_def clickAt_def
      snap_origin snap_v1 snap_v2 offsettingLinear_def newDimensionSystem_def vertexSnap_def
      vec_defs withRenderer_def createDimension_def rebuildAll_def clearPreview_def reset_def
      buildGeometry_def buildAngleGeometry_def newDimensionRenderer_def map_filter_simps Let_def)

text \<open>
  C6, amended. In every interaction state (the idle one included) an explicit
  cancel leaves the state machine idle, the three slots of the scratch buffer empty
  and the preview group empty; the mode, the construction plane and the persisted
  dimensions are untouched. A switch of the mode writes the mode and nothing else:
  the state, the buffer and the preview are as they were. The machine is reset on
  a switch of the mode only when the caller follows the switch with a cancel.
\<close>

theorem cancel_and_mode_write:
  "(let s' = cancel s in
      state s' = Idle \<and> startPoint s' = None \<and> endPoint s' = None \<and> angleP2 s' = None \<and>
      previewGroup (dimensionRenderer s') = [] \<and> mode s' = mode s \<and> cplane s' = cplane s \<and>
      dimensionData (dimensionRenderer s') = dimensionData (dimensionRenderer s) \<and>
      dimensionsGroup (dimensionRenderer s') = dimensionsGroup (dimensionRenderer s)) \<and>
   (let s' = assignMode v s in
      mode s' = v \<and> state s' = state s \<and> startPoint s' = startPoint s \<and>
      endPoint s' = endPoint s \<and> angleP2 s' = angleP2 s \<and>
      dimensionRenderer s' = dimensionRenderer s \<and> cplane s' = cplane s) \<and>
   (let s' = cancel (assignMode v s) in
      mode s' = v \<and> state s' = Idle \<and> startPoint s' = None \<and> endPoint s' = None \<and>
      angleP2 s' = None \<and> previewGroup (dimensionRenderer s') = [])"
  by (simp add: cancel_def assignMode_def reset_def clearPreview_def Let_def)

end
